theory Spec2Isabelle
  imports Complex_Main
begin

section \<open>JavaScript numbers\<close>

text \<open>
  Every number of the program is a JavaScript Number, an IEEE-754 binary64 value. A finite
  one is modelled by the real number it denotes. An arithmetic operation of the source is the
  exact operation on real numbers followed by \<open>to_double\<close>, the rounding to the nearest
  binary64 value, ties to the even significand: a significand of 53 bits, and the
  exponent of the last place never below \<open>-1074\<close> (the subnormal range).
  Infinities, NaN and the negative zero are outside the model: the operands met here
  (ratings between 1 and 5, counters and lengths far below \<open>2 ^ 53\<close>, the literals of the
  source) keep every exact result many orders of magnitude below the overflow threshold
  \<open>2 ^ 1024\<close>, rounding does not leave a bound that is a power of two (\<open>to_double_bounded\<close>
  below), and every divisor of the source is a non-zero count or literal.
\<close>

type_synonym number = real

lemma ilog2_halve: "(2::real) \<le> x \<Longrightarrow> \<lfloor>x / 2\<rfloor> < \<lfloor>x\<rfloor>"
proof -
  assume a: "2 \<le> x"
  have "x / 2 \<le> x - 1" using a by simp
  then have "\<lfloor>x / 2\<rfloor> \<le> \<lfloor>x - 1\<rfloor>" by (rule floor_mono)
  moreover have "\<lfloor>x - 1\<rfloor> = \<lfloor>x\<rfloor> - 1" by simp
  ultimately show ?thesis by linarith
qed

lemma ilog2_double_small:
  "(0::real) < x \<Longrightarrow> x < 1 \<Longrightarrow> \<lfloor>2 * x\<rfloor> \<le> 1 \<and> 2 \<le> \<lceil>1 / x\<rceil>"
proof -
  assume a: "0 < x" "x < 1"
  have "\<lfloor>2 * x\<rfloor> \<le> 1" using a by (simp add: floor_le_iff)
  moreover have "1 < 1 / x" using a by simp
  then have "1 < \<lceil>1 / x\<rceil>" by (simp add: less_ceiling_iff)
  ultimately show ?thesis by linarith
qed

lemma ilog2_double: "(0::real) < x \<Longrightarrow> x < 1 \<Longrightarrow> \<lceil>1 / (2 * x)\<rceil> < \<lceil>1 / x\<rceil>"
proof -
  assume a: "0 < x" "x < 1"
  have c: "2 \<le> \<lceil>1 / x\<rceil>" using ilog2_double_small [OF a] by simp
  have "1 / (2 * x) = (1 / x) / 2" by simp
  also have "\<dots> \<le> of_int \<lceil>1 / x\<rceil> / 2" by (simp add: divide_right_mono)
  also have "\<dots> \<le> of_int (\<lceil>1 / x\<rceil> - 1)" using c by simp
  finally have "\<lceil>1 / (2 * x)\<rceil> \<le> \<lceil>1 / x\<rceil> - 1" by (simp only: ceiling_le_iff)
  then show ?thesis by linarith
qed

text \<open>The binary exponent of a positive number: \<open>2 ^ ilog2 x \<le> x < 2 ^ (ilog2 x + 1)\<close>.\<close>

function ilog2 :: "real \<Rightarrow> int" where
  "ilog2 x = (if x \<le> 0 then 0
              else if 2 \<le> x then ilog2 (x / 2) + 1
              else if x < 1 then ilog2 (2 * x) - 1
              else 0)"
  by pat_completeness auto
termination
proof (relation "measure (\<lambda>x. if 1 \<le> x then nat \<lfloor>x\<rfloor> else nat \<lceil>1 / x\<rceil> + 1)")
  fix x :: real
  assume "\<not> x \<le> 0" "2 \<le> x"
  then show "(x / 2, x) \<in> measure (\<lambda>x. if 1 \<le> x then nat \<lfloor>x\<rfloor> else nat \<lceil>1 / x\<rceil> + 1)"
    using ilog2_halve [of x] by simp
next
  fix x :: real
  assume a: "\<not> x \<le> 0" "\<not> 2 \<le> x" "x < 1"
  then have p: "0 < x" by simp
  show "(2 * x, x) \<in> measure (\<lambda>x. if 1 \<le> x then nat \<lfloor>x\<rfloor> else nat \<lceil>1 / x\<rceil> + 1)"
    using ilog2_double_small [OF p a(3)] ilog2_double [OF p a(3)] a
    by (simp del: ceiling_divide_eq_div_numeral floor_divide_eq_div_numeral) linarith
qed simp

declare ilog2.simps [simp del]

text \<open>
  The exponent of the unit in the last place of the binary64 values nearest to \<open>x\<close>:
  52 places below the leading bit, and \<open>-1074\<close> for the subnormal numbers.
\<close>

definition ulp_exponent :: "real \<Rightarrow> int" where
  "ulp_exponent x = max (ilog2 \<bar>x\<bar> - 52) (- 1074)"

text \<open>Rounding to the nearest integer, a tie to the even one.\<close>

definition round_half_even :: "real \<Rightarrow> int" where
  "round_half_even x =
     (let f = \<lfloor>x\<rfloor>; d = x - of_int f in
      if d < 1 / 2 then f
      else if 1 / 2 < d then f + 1
      else if even f then f else f + 1)"

definition to_double :: "real \<Rightarrow> number" where
  "to_double x = of_int (round_half_even (x / 2 powi ulp_exponent x)) * 2 powi ulp_exponent x"

text \<open>The operators \<open>+\<close>, \<open>-\<close>, \<open>*\<close> and \<open>/\<close> of the source, on finite operands.\<close>

definition js_add :: "number \<Rightarrow> number \<Rightarrow> number" where
  "js_add a b = to_double (a + b)"

definition js_sub :: "number \<Rightarrow> number \<Rightarrow> number" where
  "js_sub a b = to_double (a - b)"

definition js_mul :: "number \<Rightarrow> number \<Rightarrow> number" where
  "js_mul a b = to_double (a * b)"

definition js_div :: "number \<Rightarrow> number \<Rightarrow> number" where
  "js_div a b = to_double (a / b)"

text \<open>
  \<open>Math.round\<close> returns the nearest integer, a tie going up (towards \<open>+\<infinity>\<close>); the result is
  exact. \<open>Math.min\<close> and \<open>Math.max\<close> are \<open>min\<close> and \<open>max\<close>.
\<close>

definition Math_round :: "number \<Rightarrow> number" where
  "Math_round x = of_int \<lfloor>x + 1 / 2\<rfloor>"

text \<open>The decimal literals of the source that are not binary fractions.\<close>

definition lit_0_3 :: number where "lit_0_3 = to_double (3 / 10)"
definition lit_0_2 :: number where "lit_0_2 = to_double (2 / 10)"
definition lit_0_15 :: number where "lit_0_15 = to_double (15 / 100)"
definition lit_0_1 :: number where "lit_0_1 = to_double (1 / 10)"

subsection \<open>Rounding is monotone\<close>

lemma ilog2_bounds: "0 < x \<Longrightarrow> 2 powi ilog2 x \<le> x \<and> x < 2 powi (ilog2 x + 1)"
proof (induction x rule: ilog2.induct)
  case (1 x)
  show ?case
  proof (cases "2 \<le> x")
    case True
    then have e: "ilog2 x = ilog2 (x / 2) + 1" using 1 by (subst ilog2.simps) simp
    have "2 powi ilog2 (x / 2) \<le> x / 2 \<and> x / 2 < 2 powi (ilog2 (x / 2) + 1)"
      using 1 True by simp
    then show ?thesis unfolding e by (simp add: power_int_add)
  next
    case False
    show ?thesis
    proof (cases "x < 1")
      case True
      then have e: "ilog2 x = ilog2 (2 * x) - 1" using 1 False by (subst ilog2.simps) simp
      have "2 powi ilog2 (2 * x) \<le> 2 * x \<and> 2 * x < 2 powi (ilog2 (2 * x) + 1)"
        using 1 True False by simp
      then show ?thesis unfolding e by (simp add: power_int_add power_int_diff)
    next
      case f: False
      then have e: "ilog2 x = 0" using 1 False by (subst ilog2.simps) simp
      show ?thesis unfolding e using f False by simp
    qed
  qed
qed

lemma ilog2_mono: "0 < x \<Longrightarrow> x \<le> y \<Longrightarrow> ilog2 x \<le> ilog2 y"
proof -
  assume a: "0 < x" "x \<le> y"
  then have "0 < y" by simp
  from ilog2_bounds [OF a(1)] ilog2_bounds [OF this] a(2)
  have "(2::real) powi ilog2 x < 2 powi (ilog2 y + 1)" by linarith
  moreover have "(2::real) powi (ilog2 y + 1) \<le> 2 powi ilog2 x" if "ilog2 y + 1 \<le> ilog2 x"
    using that by (intro power_int_increasing) simp_all
  ultimately show ?thesis by force
qed

lemma round_half_even_range: "\<lfloor>x\<rfloor> \<le> round_half_even x \<and> round_half_even x \<le> \<lfloor>x\<rfloor> + 1"
  by (simp add: round_half_even_def Let_def)

lemma round_half_even_of_int [simp]: "round_half_even (of_int k) = k"
  by (simp add: round_half_even_def)

lemma round_half_even_ge: "of_int k \<le> x \<Longrightarrow> k \<le> round_half_even x"
proof -
  assume "of_int k \<le> x"
  then have "k \<le> \<lfloor>x\<rfloor>" by (simp add: le_floor_iff)
  with round_half_even_range [of x] show ?thesis by linarith
qed

lemma round_half_even_le: "x \<le> of_int k \<Longrightarrow> round_half_even x \<le> k"
proof (cases "x = of_int k")
  case True
  then show ?thesis by simp
next
  case False
  assume "x \<le> of_int k"
  with False have "x < of_int k" by simp
  then have "\<lfloor>x\<rfloor> < k" by (simp add: floor_less_iff)
  with round_half_even_range [of x] show ?thesis by linarith
qed

lemma round_half_even_mono: "x \<le> y \<Longrightarrow> round_half_even x \<le> round_half_even y"
proof -
  assume a: "x \<le> y"
  then have f: "\<lfloor>x\<rfloor> \<le> \<lfloor>y\<rfloor>" by (rule floor_mono)
  show ?thesis
  proof (cases "\<lfloor>x\<rfloor> = \<lfloor>y\<rfloor>")
    case True
    with a show ?thesis by (auto simp: round_half_even_def Let_def)
  next
    case False
    with f have "\<lfloor>x\<rfloor> + 1 \<le> \<lfloor>y\<rfloor>" by simp
    with round_half_even_range [of x] round_half_even_range [of y] show ?thesis by linarith
  qed
qed

lemma round_half_even_minus: "round_half_even (- x) = - round_half_even x"
proof (cases "x = of_int \<lfloor>x\<rfloor>")
  case True
  then obtain k where k: "x = of_int k" ..
  then have "- x = of_int (- k)" by simp
  then show ?thesis using k by (simp only: round_half_even_of_int)
next
  case False
  then have c: "\<lfloor>- x\<rfloor> = - \<lfloor>x\<rfloor> - 1" by (simp add: floor_minus ceiling_altdef)
  show ?thesis by (auto simp: round_half_even_def Let_def c)
qed

lemma ulp_exponent_minus [simp]: "ulp_exponent (- x) = ulp_exponent x"
  by (simp add: ulp_exponent_def)

lemma to_double_minus: "to_double (- x) = - to_double x"
  by (simp add: to_double_def round_half_even_minus)

lemma to_double_zero [simp]: "to_double 0 = 0"
  by (simp add: to_double_def round_half_even_def)

lemma to_double_nonneg: "0 \<le> x \<Longrightarrow> 0 \<le> to_double x"
proof -
  assume "0 \<le> x"
  then have "of_int 0 \<le> x / 2 powi ulp_exponent x" by simp
  then have "0 \<le> round_half_even (x / 2 powi ulp_exponent x)" by (rule round_half_even_ge)
  then show ?thesis by (simp add: to_double_def)
qed

lemma to_double_mono_pos:
  assumes "0 < x" "x \<le> y"
  shows "to_double x \<le> to_double y"
proof -
  have y: "0 < y" using assms by simp
  have le: "ulp_exponent x \<le> ulp_exponent y"
    using ilog2_mono [of "\<bar>x\<bar>" "\<bar>y\<bar>"] assms by (simp add: ulp_exponent_def)
  show ?thesis
  proof (cases "ulp_exponent x = ulp_exponent y")
    case True
    have "x / 2 powi ulp_exponent y \<le> y / 2 powi ulp_exponent y"
      using assms by (simp add: divide_right_mono)
    then have "round_half_even (x / 2 powi ulp_exponent y)
        \<le> round_half_even (y / 2 powi ulp_exponent y)"
      by (rule round_half_even_mono)
    then show ?thesis by (simp add: to_double_def True)
  next
    case False
    with le have lt: "ulp_exponent x + 1 \<le> ulp_exponent y" by simp
    then have ey: "ulp_exponent y = ilog2 y - 52"
      using y by (simp add: ulp_exponent_def max_def split: if_splits)
    have ex: "ilog2 x - 52 \<le> ulp_exponent x" using assms by (simp add: ulp_exponent_def)
    \<comment> \<open>the larger argument has at least \<open>2 ^ 52\<close> units in its last place\<close>
    have "2 powi (ulp_exponent y + 52) \<le> y" using ilog2_bounds [OF y] by (simp add: ey)
    then have "of_int (2 ^ 52) \<le> y / 2 powi ulp_exponent y"
      by (simp add: power_int_add pos_le_divide_eq mult.commute)
    then have "2 ^ 52 \<le> round_half_even (y / 2 powi ulp_exponent y)"
      by (rule round_half_even_ge)
    then have "(2::real) ^ 52 \<le> of_int (round_half_even (y / 2 powi ulp_exponent y))"
      by (metis of_int_le_iff of_int_numeral of_int_power)
    then have "2 ^ 52 * 2 powi ulp_exponent y \<le> to_double y"
      by (simp add: to_double_def mult_right_mono)
    then have hi: "2 powi (ulp_exponent y + 52) \<le> to_double y"
      by (simp add: power_int_add mult.commute)
    \<comment> \<open>the smaller one has at most \<open>2 ^ 53\<close>\<close>
    have "x < 2 powi (ilog2 x + 1)" using ilog2_bounds [OF assms(1)] by simp
    also have "\<dots> \<le> 2 powi (ulp_exponent x + 53)"
      using ex by (intro power_int_increasing) simp_all
    finally have "x / 2 powi ulp_exponent x \<le> of_int (2 ^ 53)"
      by (simp add: power_int_add pos_divide_le_eq mult.commute)
    then have "round_half_even (x / 2 powi ulp_exponent x) \<le> 2 ^ 53"
      by (rule round_half_even_le)
    then have "of_int (round_half_even (x / 2 powi ulp_exponent x)) \<le> (2::real) ^ 53"
      by (metis of_int_le_iff of_int_numeral of_int_power)
    then have "to_double x \<le> 2 ^ 53 * 2 powi ulp_exponent x"
      by (simp add: to_double_def mult_right_mono)
    then have "to_double x \<le> 2 powi (ulp_exponent x + 53)"
      by (simp add: power_int_add mult.commute)
    also have "\<dots> \<le> 2 powi (ulp_exponent y + 52)"
      using lt by (intro power_int_increasing) simp_all
    finally show ?thesis using hi by simp
  qed
qed

lemma to_double_mono: "x \<le> y \<Longrightarrow> to_double x \<le> to_double y"
proof -
  assume a: "x \<le> y"
  consider "0 < x" | "x \<le> 0" "0 \<le> y" | "y < 0" by linarith
  then show ?thesis
  proof cases
    case 1
    then show ?thesis using a by (rule to_double_mono_pos)
  next
    case 2
    then have "to_double x \<le> 0" using to_double_nonneg [of "- x"] by (simp add: to_double_minus)
    moreover have "0 \<le> to_double y" using 2 by (simp add: to_double_nonneg)
    ultimately show ?thesis by simp
  next
    case 3
    then have "to_double (- y) \<le> to_double (- x)" using a by (intro to_double_mono_pos) simp_all
    then show ?thesis by (simp add: to_double_minus)
  qed
qed

lemma Math_round_mono: "x \<le> y \<Longrightarrow> Math_round x \<le> Math_round y"
  by (simp add: Math_round_def floor_mono)

subsection \<open>Integers up to \<open>2 ^ 53\<close> are binary64 values\<close>

lemma ilog2_le: "0 < x \<Longrightarrow> x < 2 powi n \<Longrightarrow> ilog2 x < n"
proof -
  assume a: "0 < x" "x < 2 powi n"
  have "(2::real) powi n \<le> 2 powi ilog2 x" if "n \<le> ilog2 x"
    using that by (intro power_int_increasing) simp_all
  with ilog2_bounds [OF a(1)] a(2) show ?thesis by force
qed

lemma ilog2_ge: "2 powi n \<le> x \<Longrightarrow> n \<le> ilog2 x"
proof -
  assume a: "2 powi n \<le> x"
  have p: "(0::real) < 2 powi n" by simp
  with a have x: "0 < x" by linarith
  have "(2::real) powi (ilog2 x + 1) \<le> 2 powi n" if "ilog2 x + 1 \<le> n"
    using that by (intro power_int_increasing) simp_all
  with ilog2_bounds [OF x] a show ?thesis by force
qed

lemma to_double_of_nat_pos:
  assumes "0 < k" "k \<le> 2 ^ 53"
  shows "to_double (of_int k) = of_int k"
proof -
  have k: "(0::real) < of_int k" using assms by simp
  have "(2::real) powi 0 \<le> of_int k" using assms by simp
  then have lo: "0 \<le> ilog2 (of_int k)" by (rule ilog2_ge)
  show ?thesis
  proof (cases "k = 2 ^ 53")
    case True
    have "ilog2 (2 ^ 53) = 53"
    proof -
      have "(2::real) powi 53 \<le> 2 ^ 53" by simp
      then have "53 \<le> ilog2 (2 ^ 53)" by (rule ilog2_ge)
      moreover have "(2::real) ^ 53 < 2 powi 54" by simp
      then have "ilog2 (2 ^ 53) < 54" by (intro ilog2_le) simp_all
      ultimately show ?thesis by simp
    qed
    then show ?thesis
      by (simp add: True to_double_def ulp_exponent_def round_half_even_def)
  next
    case False
    with assms have "of_int k < (2::real) ^ 53"
      by (metis less_le of_int_less_iff of_int_numeral of_int_power)
    then have "of_int k < (2::real) powi 53" by simp
    then have hi: "ilog2 (of_int k) < 53" using k by (intro ilog2_le)
    define e where "e = ulp_exponent (of_int k)"
    have e: "- 52 \<le> e" "e \<le> 0" using lo hi k by (simp_all add: e_def ulp_exponent_def)
    have p: "(2::real) powi e = 1 / 2 ^ nat (- e)"
      using e by (simp add: power_int_def divide_simps)
    have "(of_int k :: real) / 2 powi e = of_int (k * 2 ^ nat (- e))"
      by (simp add: p)
    then have "round_half_even (of_int k / 2 powi e) = k * 2 ^ nat (- e)"
      by (simp only: round_half_even_of_int)
    then have "to_double (of_int k) = of_int (k * 2 ^ nat (- e)) * 2 powi e"
      by (simp add: to_double_def e_def)
    also have "\<dots> = of_int k" by (simp add: p)
    finally show ?thesis .
  qed
qed

lemma to_double_of_int: "\<bar>k\<bar> \<le> 2 ^ 53 \<Longrightarrow> to_double (of_int k) = of_int k"
proof -
  assume a: "\<bar>k\<bar> \<le> 2 ^ 53"
  consider "0 < k" | "k = 0" | "k < 0" by linarith
  then show ?thesis
  proof cases
    case 1
    then show ?thesis using a by (intro to_double_of_nat_pos) simp_all
  next
    case 2
    then show ?thesis by simp
  next
    case 3
    then have "to_double (of_int (- k)) = of_int (- k)" using a by (intro to_double_of_nat_pos) simp_all
    then show ?thesis by (simp add: to_double_minus)
  qed
qed

subsection \<open>The rounding error is at most half a unit in the last place\<close>

lemma round_half_even_error: "\<bar>of_int (round_half_even y) - y\<bar> \<le> 1 / 2"
proof -
  have "of_int \<lfloor>y\<rfloor> \<le> y" "y < of_int \<lfloor>y\<rfloor> + 1" by linarith+
  then show ?thesis by (auto simp add: round_half_even_def Let_def)
qed

lemma to_double_error: "\<bar>to_double x - x\<bar> \<le> 2 powi ulp_exponent x / 2"
proof -
  define e where "e = ulp_exponent x"
  have p: "(0::real) < 2 powi e" by simp
  have "to_double x - x = (of_int (round_half_even (x / 2 powi e)) - x / 2 powi e) * 2 powi e"
    by (simp add: to_double_def e_def algebra_simps)
  then have "\<bar>to_double x - x\<bar> = \<bar>of_int (round_half_even (x / 2 powi e)) - x / 2 powi e\<bar> * 2 powi e"
    by (simp add: abs_mult)
  also have "\<dots> \<le> 1 / 2 * 2 powi e"
    using round_half_even_error [of "x / 2 powi e"] by (intro mult_right_mono) simp_all
  finally show ?thesis by (simp add: e_def)
qed

lemma ulp_exponent_le:
  assumes "0 < x" "x < 2 powi (E + 53)" "- 1074 \<le> E"
  shows "ulp_exponent x \<le> E"
proof -
  have "ilog2 x < E + 53" using assms(1,2) by (rule ilog2_le)
  then show ?thesis using assms by (simp add: ulp_exponent_def)
qed

lemma to_double_error_below:
  assumes "0 < x" "x < 2 powi (E + 53)" "- 1074 \<le> E"
  shows "\<bar>to_double x - x\<bar> \<le> 2 powi E / 2"
proof -
  have "ulp_exponent x \<le> E" using assms by (rule ulp_exponent_le)
  then have "(2::real) powi ulp_exponent x \<le> 2 powi E" by (intro power_int_increasing) simp_all
  with to_double_error [of x] show ?thesis by simp
qed

subsection \<open>Rounding keeps a bound that is a power of two\<close>

lemma ilog2_power_int: "ilog2 (2 powi n) = n"
proof -
  have "n \<le> ilog2 (2 powi n)" by (rule ilog2_ge) simp
  moreover have "(2::real) powi n < 2 powi (n + 1)" by (simp add: power_int_add)
  then have "ilog2 (2 powi n) < n + 1" by (intro ilog2_le) simp_all
  ultimately show ?thesis by simp
qed

lemma to_double_power_int: "- 1074 \<le> n \<Longrightarrow> to_double (2 powi n) = 2 powi n"
proof -
  assume n: "- 1074 \<le> n"
  define e where "e = ulp_exponent (2 powi n)"
  have e: "e \<le> n" using n by (simp add: e_def ulp_exponent_def ilog2_power_int)
  have "(2::real) powi n / 2 powi e = 2 powi (n - e)" by (simp add: power_int_diff)
  also have "\<dots> = of_int (2 ^ nat (n - e))" using e by (simp add: power_int_def)
  finally have "round_half_even (2 powi n / 2 powi e) = 2 ^ nat (n - e)"
    by (simp only: round_half_even_of_int)
  then have "to_double (2 powi n) = of_int (2 ^ nat (n - e)) * 2 powi e"
    by (simp add: to_double_def e_def)
  also have "\<dots> = 2 powi (n - e) * 2 powi e" using e by (simp add: power_int_def)
  also have "\<dots> = 2 powi n" by (simp flip: power_int_add)
  finally show ?thesis .
qed

lemma to_double_bounded:
  assumes "- 1074 \<le> n" "\<bar>x\<bar> \<le> 2 powi n"
  shows "\<bar>to_double x\<bar> \<le> 2 powi n"
proof -
  have "- (2 powi n) \<le> x" "x \<le> 2 powi n" using assms(2) by (simp_all add: abs_le_iff)
  then have "to_double (- (2 powi n)) \<le> to_double x" "to_double x \<le> to_double (2 powi n)"
    by (simp_all add: to_double_mono)
  then show ?thesis
    by (simp add: to_double_minus to_double_power_int [OF assms(1)] abs_le_iff)
qed

subsection \<open>Evaluating the operations on numerals\<close>

lemma ilog2_ge2: "2 \<le> x \<Longrightarrow> ilog2 x = ilog2 (x / 2) + 1"
  by (subst ilog2.simps) simp

lemma ilog2_lt1: "0 < x \<Longrightarrow> x < 1 \<Longrightarrow> ilog2 x = ilog2 (2 * x) - 1"
  by (subst ilog2.simps) simp

lemma ilog2_unit: "1 \<le> x \<Longrightarrow> x < 2 \<Longrightarrow> ilog2 x = 0"
  by (subst ilog2.simps) simp

lemma ilog2_nonpos: "x \<le> 0 \<Longrightarrow> ilog2 x = 0"
  by (subst ilog2.simps) simp

lemmas double_eval =
  to_double_def ulp_exponent_def ilog2_ge2 ilog2_lt1 ilog2_unit ilog2_nonpos
  round_half_even_def Let_def js_mul_def js_add_def js_sub_def js_div_def
  lit_0_3_def lit_0_2_def lit_0_15_def lit_0_1_def Math_round_def


section \<open>Reviews\<close>

text \<open>
  A string is the sequence of its UTF-16 code units, which is what \<open>length\<close> counts
  in the source; \<open>js_str\<close> reads an ASCII literal. An ObjectId is a number here.
\<close>

type_synonym code_unit = nat
type_synonym js_string = "code_unit list"
type_synonym object_id = nat

definition js_str :: "string \<Rightarrow> js_string" where
  "js_str s = map of_char s"

text \<open>The six sub-scores of the review schema; the field \<open>value\<close> is \<open>value'\<close> here.\<close>

record ratings =
  overall :: number
  academics :: number
  campusLife :: number
  facilities :: number
  location :: number
  value' :: number

text \<open>
  The shape of \<open>helpful\<close> and of \<open>reported\<close>: a counter, which the schema defaults to 0
  and the routes change by one, and the array of the users who voted.
\<close>

record votes =
  count :: int
  users :: "object_id list"

text \<open>
  The object that the helpers of \<open>utils/reviewHelpers.js\<close> receive: any object with the
  fields of a review. \<open>None\<close> is a field that is undefined or missing.
\<close>

record review_obj =
  obj_ratings :: ratings
  obj_content :: js_string
  obj_pros :: "js_string list option"
  obj_cons :: "js_string list option"
  obj_wouldRecommend :: bool
  obj_helpful :: "votes option"
  obj_reported :: "votes option"

datatype js_error = TypeError

section \<open>The review score\<close>

text \<open>\<open>x?.length || 0\<close> for an optional array.\<close>

definition length_or_0 :: "'a list option \<Rightarrow> nat" where
  "length_or_0 xs = (case xs of None \<Rightarrow> 0 | Some ys \<Rightarrow> length ys)"

text \<open>
  \<open>calculateReviewScore\<close>. Reading \<open>helpful.count\<close> or \<open>reported.count\<close> of an undefined
  \<open>helpful\<close> or \<open>reported\<close> throws a TypeError; \<open>review.pros?.length || 0\<close> does not.
\<close>

definition calculateReviewScore :: "review_obj \<Rightarrow> js_error + number" where
  "calculateReviewScore review =
     (let ratings = obj_ratings review;
          ratingScore =
            js_add (js_add (js_add (js_add (js_add
              (js_mul (overall ratings) lit_0_3)
              (js_mul (academics ratings) lit_0_2))
              (js_mul (campusLife ratings) lit_0_15))
              (js_mul (facilities ratings) lit_0_15))
              (js_mul (location ratings) lit_0_1))
              (js_mul (value' ratings) lit_0_1)
      in case obj_helpful review of
           None \<Rightarrow> Inl TypeError
         | Some helpful \<Rightarrow>
             let helpfulBoost = min (js_mul (of_int (count helpful)) lit_0_1) 2
             in (case obj_reported review of
                  None \<Rightarrow> Inl TypeError
                | Some reported \<Rightarrow>
                    (let reportPenalty = min (js_mul (of_int (count reported)) (1 / 2)) 3;
                         contentLength = of_nat (length (obj_content review));
                         prosConsCount =
                           js_add (of_nat (length_or_0 (obj_pros review)))
                                  (of_nat (length_or_0 (obj_cons review)));
                         contentScore =
                           min (js_add (js_div contentLength 200) (js_mul prosConsCount lit_0_2)) 1;
                         finalScore =
                           max 0 (js_add (js_sub (js_add ratingScore helpfulBoost) reportPenalty)
                                         contentScore)
                     in Inr (js_div (Math_round (js_mul finalScore 10)) 10))))"

text \<open>\<open>getReviewSentiment\<close>.\<close>

definition getReviewSentiment :: "review_obj \<Rightarrow> string" where
  "getReviewSentiment review =
     (let ratings = obj_ratings review;
          averageRating =
            js_div (js_add (js_add (js_add (js_add (js_add
              (overall ratings) (academics ratings)) (campusLife ratings))
              (facilities ratings)) (location ratings)) (value' ratings)) 6;
          prosCount = length_or_0 (obj_pros review);
          consCount = length_or_0 (obj_cons review)
      in if 4 \<le> averageRating \<and> obj_wouldRecommend review \<and> consCount < prosCount
         then ''positive''
         else if averageRating \<le> 2 \<and> \<not> obj_wouldRecommend review \<and> prosCount < consCount
         then ''negative''
         else ''neutral'')"


section \<open>The content check\<close>

text \<open>
  The character classes of the regular expressions: \<open>.\<close> is every code unit but the line
  terminators, \<open>\s\<close> is the white space and the line terminators.
\<close>

definition is_line_terminator :: "code_unit \<Rightarrow> bool" where
  "is_line_terminator c = (c = 10 \<or> c = 13 \<or> c = 8232 \<or> c = 8233)"

definition is_space :: "code_unit \<Rightarrow> bool" where
  "is_space c =
     ((9 \<le> c \<and> c \<le> 13) \<or> c = 32 \<or> c = 160 \<or> c = 5760 \<or> (8192 \<le> c \<and> c \<le> 8202)
      \<or> c = 8232 \<or> c = 8233 \<or> c = 8239 \<or> c = 8287 \<or> c = 12288 \<or> c = 65279)"

text \<open>\<open>/(.)\1{4,}/\<close>: some code unit, not a line terminator, five times in a row.\<close>

fun repeated_characters :: "js_string \<Rightarrow> bool" where
  "repeated_characters (a # b # c # d # e # s) =
     ((\<not> is_line_terminator a \<and> a = b \<and> a = c \<and> a = d \<and> a = e)
      \<or> repeated_characters (b # c # d # e # s))"
| "repeated_characters s = False"

text \<open>\<open>/^[A-Z\s!]{20,}$/\<close>: the whole string, of 20 code units or more.\<close>

definition all_caps :: "js_string \<Rightarrow> bool" where
  "all_caps s =
     (20 \<le> length s \<and> list_all (\<lambda>c. (65 \<le> c \<and> c \<le> 90) \<or> is_space c \<or> c = 33) s)"

text \<open>
  Matching under the flag \<open>i\<close> compares the upper-case forms. The patterns of the source
  are ASCII letters, and no code unit beyond ASCII has its upper-case form in ASCII
  under that flag, so only the ASCII letters need their upper-case form here.
  \<open>toLowerCase\<close> is needed on the same terms: the words searched in its result are ASCII
  letters and digits without \<open>i\<close> and \<open>k\<close>, the only letters that a code unit beyond ASCII
  has as its lower-case form.
\<close>

definition canonicalize :: "code_unit \<Rightarrow> code_unit" where
  "canonicalize c = (if 97 \<le> c \<and> c \<le> 122 then c - 32 else c)"

definition toLowerCase :: "js_string \<Rightarrow> js_string" where
  "toLowerCase s = map (\<lambda>c. if 65 \<le> c \<and> c \<le> 90 then c + 32 else c) s"

definition matches_at :: "js_string \<Rightarrow> js_string \<Rightarrow> bool" where
  "matches_at pat s =
     (length pat \<le> length s \<and> map canonicalize (take (length pat) s) = map canonicalize pat)"

fun tails :: "'a list \<Rightarrow> 'a list list" where
  "tails [] = [[]]"
| "tails (x # xs) = (x # xs) # tails xs"

text \<open>
  \<open>/(buy|sell|cheap|discount|offer|deal).{0,20}(now|today|click)/i\<close>: somewhere in the
  string one of the first words, then at most 20 code units that are not line
  terminators, then one of the last words. \<open>gap_then_word n s\<close> reads \<open>.{0,n}(now|today|click)\<close>
  at the start of \<open>s\<close>.
\<close>

fun gap_then_word :: "nat \<Rightarrow> js_string \<Rightarrow> bool" where
  "gap_then_word n [] = False"
| "gap_then_word n (c # cs) =
     (list_ex (\<lambda>w. matches_at w (c # cs)) (map js_str [''now'', ''today'', ''click''])
      \<or> (0 < n \<and> \<not> is_line_terminator c \<and> gap_then_word (n - 1) cs))"

definition promotion :: "js_string \<Rightarrow> bool" where
  "promotion s =
     list_ex (\<lambda>t.
       list_ex (\<lambda>w. matches_at w t \<and> gap_then_word 20 (drop (length w) t))
         (map js_str [''buy'', ''sell'', ''cheap'', ''discount'', ''offer'', ''deal'']))
       (tails s)"

text \<open>
  \<open>content.split(/\s+/)\<close>: the pieces between the maximal runs of white space; a run at
  the start or at the end of the string leaves an empty piece there, and the empty
  string gives one empty piece. \<open>cur\<close> is the piece being read, reversed; \<open>in_run\<close> says
  that the code unit before was white space.
\<close>

fun split_from :: "js_string \<Rightarrow> bool \<Rightarrow> js_string \<Rightarrow> js_string list" where
  "split_from cur in_run [] = [rev cur]"
| "split_from cur in_run (c # cs) =
     (if is_space c then (if in_run then split_from cur True cs
                          else rev cur # split_from [] True cs)
      else split_from (c # cur) False cs)"

definition split_whitespace :: "js_string \<Rightarrow> js_string list" where
  "split_whitespace s = split_from [] False s"

definition string_includes :: "js_string \<Rightarrow> js_string \<Rightarrow> bool" where
  "string_includes s w = list_ex (\<lambda>t. take (length w) t = w) (tails s)"

record validation =
  isValid :: bool
  errors :: "string list"

definition spamPatterns :: "(js_string \<Rightarrow> bool) list" where
  "spamPatterns = [repeated_characters, all_caps, promotion]"

definition profanityWords :: "js_string list" where
  "profanityWords = map js_str [''badword1'', ''badword2'']"

text \<open>\<open>validateReviewContent\<close>: the three blocks push their messages in this order.\<close>

definition validateReviewContent :: "js_string \<Rightarrow> js_string \<Rightarrow> validation" where
  "validateReviewContent content title =
     (let errors1 =
            concat (map (\<lambda>pattern. if pattern content \<or> pattern title
                                   then [''Content appears to be spam''] else [])
                        spamPatterns);
          words = filter (\<lambda>word. 2 < length word) (split_whitespace content);
          errors2 =
            errors1 @ (if length words < 20
                       then [''Review must contain at least 20 meaningful words''] else []);
          hasProfanity =
            list_ex (\<lambda>word. string_includes (toLowerCase content) word
                            \<or> string_includes (toLowerCase title) word) profanityWords;
          errors3 =
            errors2 @ (if hasProfanity then [''Review contains inappropriate language''] else [])
      in \<lparr>isValid = (length errors3 = 0), errors = errors3\<rparr>)"


section \<open>The collections\<close>

text \<open>
  A document of the Review model (\<open>models/Review.js\<close>). The schema gives every document
  its arrays and its two counters (default 0), so no field is optional here. The paths
  that no route below reads (\<open>graduationYear\<close>, \<open>major\<close>, \<open>studentType\<close>, \<open>verified\<close>, the
  timestamps) are left out. \<open>doc_id\<close> is \<open>_id\<close>.
\<close>

record review =
  doc_id :: object_id
  user :: object_id
  college :: object_id
  ratings :: ratings
  title :: js_string
  content :: js_string
  pros :: "js_string list"
  cons :: "js_string list"
  wouldRecommend :: bool
  helpful :: votes
  reported :: votes
  isActive :: bool

text \<open>
  Of a College document, the sub-document \<open>reviews\<close>: the paths \<open>reviews.averageRating\<close>,
  \<open>reviews.totalReviews\<close> and \<open>reviews.ratingBreakdown\<close>, whose five fields carry the
  suffix \<open>_mean\<close> here.
\<close>

record rating_breakdown =
  academics_mean :: number
  campusLife_mean :: number
  facilities_mean :: number
  location_mean :: number
  value_mean :: number

record college_reviews =
  averageRating :: number
  totalReviews :: nat
  ratingBreakdown :: rating_breakdown

text \<open>The database: the Review collection in insertion order, the colleges by \<open>_id\<close>.\<close>

record db =
  Review :: "review list"
  College :: "object_id \<rightharpoonup> college_reviews"

text \<open>
  \<open>College.findByIdAndUpdate(collegeId, {...})\<close> with the three paths of the summary: it
  replaces the summary of the college, and does nothing when there is no such college.
\<close>

definition findByIdAndUpdate :: "object_id \<Rightarrow> college_reviews \<Rightarrow> db \<Rightarrow> db" where
  "findByIdAndUpdate collegeId summary s =
     (if College s collegeId = None then s
      else s\<lparr>College := (College s)(collegeId \<mapsto> summary)\<rparr>)"

text \<open>\<open>Review.find({ college: collegeId, isActive: true })\<close>.\<close>

definition active_reviews :: "object_id \<Rightarrow> db \<Rightarrow> review list" where
  "active_reviews collegeId s = filter (\<lambda>r. college r = collegeId \<and> isActive r) (Review s)"

text \<open>\<open>updateCollegeRatings\<close>.\<close>

definition updateCollegeRatings :: "object_id \<Rightarrow> db \<Rightarrow> db" where
  "updateCollegeRatings collegeId s =
     (let reviews = active_reviews collegeId s in
      if length reviews = 0 then
        findByIdAndUpdate collegeId
          \<lparr>averageRating = 0, totalReviews = 0,
           ratingBreakdown = \<lparr>academics_mean = 0, campusLife_mean = 0, facilities_mean = 0,
                              location_mean = 0, value_mean = 0\<rparr>\<rparr> s
      else
        (let totalReviews = length reviews;
             averageRating =
               js_div (foldl (\<lambda>sum review. js_add sum (overall (ratings review))) 0 reviews)
                      (of_nat totalReviews);
             ratingBreakdown =
               \<lparr>academics_mean =
                  js_div (foldl (\<lambda>sum review. js_add sum (academics (ratings review))) 0 reviews)
                         (of_nat totalReviews),
                campusLife_mean =
                  js_div (foldl (\<lambda>sum review. js_add sum (campusLife (ratings review))) 0 reviews)
                         (of_nat totalReviews),
                facilities_mean =
                  js_div (foldl (\<lambda>sum review. js_add sum (facilities (ratings review))) 0 reviews)
                         (of_nat totalReviews),
                location_mean =
                  js_div (foldl (\<lambda>sum review. js_add sum (location (ratings review))) 0 reviews)
                         (of_nat totalReviews),
                value_mean =
                  js_div (foldl (\<lambda>sum review. js_add sum (value' (ratings review))) 0 reviews)
                         (of_nat totalReviews)\<rparr>
         in findByIdAndUpdate collegeId
              \<lparr>averageRating = js_div (Math_round (js_mul averageRating 10)) 10,
               totalReviews = totalReviews,
               ratingBreakdown = ratingBreakdown\<rparr> s))"

section \<open>The review routes\<close>

text \<open>
  A route takes the authenticated user, the request and the database, and gives the
  response and the database it leaves. The persistence layer is taken not to fail.
\<close>

datatype response =
  Message nat string
| Errors nat "string list"

text \<open>
  \<open>review.save()\<close> of a document that was read from the collection: it replaces the stored
  document of the same \<open>_id\<close>.
\<close>

definition save :: "review \<Rightarrow> db \<Rightarrow> db" where
  "save review s = s\<lparr>Review := map (\<lambda>r. if doc_id r = doc_id review then review else r) (Review s)\<rparr>"

text \<open>
  The validators of the schema on the paths that the create and the update route set:
  the six ratings between 1 and 5, a title and a content that are present (a required
  string is not empty) and within their maximal lengths.
\<close>

definition rating_ok :: "number \<Rightarrow> bool" where
  "rating_ok x = (1 \<le> x \<and> x \<le> 5)"

definition ratings_valid :: "ratings \<Rightarrow> bool" where
  "ratings_valid x =
     (rating_ok (overall x) \<and> rating_ok (academics x) \<and> rating_ok (campusLife x) \<and>
      rating_ok (facilities x) \<and> rating_ok (location x) \<and> rating_ok (value' x))"

definition title_valid :: "js_string \<Rightarrow> bool" where
  "title_valid t = (0 < length t \<and> length t \<le> 100)"

definition content_valid :: "js_string \<Rightarrow> bool" where
  "content_valid t = (0 < length t \<and> length t \<le> 2000)"

definition schema_valid :: "review \<Rightarrow> bool" where
  "schema_valid r = (ratings_valid (ratings r) \<and> title_valid (title r) \<and> content_valid (content r))"

text \<open>
  The body of \<open>POST /api/reviews\<close>, as the model constructor reads it: the constructor
  takes every path of the schema that the body holds, so besides the fields of a review
  the body may set \<open>helpful\<close>, \<open>reported\<close> and \<open>isActive\<close>; a path it leaves out gets the
  default of the schema.
\<close>

record create_body =
  b_college :: object_id
  b_ratings :: ratings
  b_title :: js_string
  b_content :: js_string
  b_pros :: "js_string list option"
  b_cons :: "js_string list option"
  b_wouldRecommend :: bool
  b_helpful :: "votes option"
  b_reported :: "votes option"
  b_isActive :: "bool option"

text \<open>\<open>new Review({ ...req.body, user: req.user.id })\<close>, with the \<open>_id\<close> of the new document.\<close>

definition new_Review :: "object_id \<Rightarrow> object_id \<Rightarrow> create_body \<Rightarrow> review" where
  "new_Review newId userId body =
     \<lparr>doc_id = newId, user = userId, college = b_college body, ratings = b_ratings body,
      title = b_title body, content = b_content body,
      pros = (case b_pros body of None \<Rightarrow> [] | Some ps \<Rightarrow> ps),
      cons = (case b_cons body of None \<Rightarrow> [] | Some cs \<Rightarrow> cs),
      wouldRecommend = b_wouldRecommend body,
      helpful = (case b_helpful body of None \<Rightarrow> \<lparr>count = 0, users = []\<rparr> | Some h \<Rightarrow> h),
      reported = (case b_reported body of None \<Rightarrow> \<lparr>count = 0, users = []\<rparr> | Some h \<Rightarrow> h),
      isActive = (case b_isActive body of None \<Rightarrow> True | Some a \<Rightarrow> a)\<rparr>"

text \<open>
  \<open>review.save()\<close> of a new document: the schema is checked, and the insert is refused
  when the \<open>_id\<close> is taken or the unique index on (user, college) has the pair.
\<close>

definition save_new :: "review \<Rightarrow> db \<Rightarrow> db option" where
  "save_new review s =
     (if schema_valid review \<and>
         \<not> list_ex (\<lambda>r. doc_id r = doc_id review
                         \<or> (user r = user review \<and> college r = college review)) (Review s)
      then Some (s\<lparr>Review := Review s @ [review]\<rparr>)
      else None)"

text \<open>
  \<open>POST /api/reviews\<close>. \<open>validationErrors\<close> is what \<open>validationResult(req)\<close> of the
  express-validator chain holds for the request, \<open>newId\<close> the \<open>_id\<close> of the new document.
\<close>

definition createReview ::
  "object_id \<Rightarrow> string list \<Rightarrow> object_id \<Rightarrow> create_body \<Rightarrow> db \<Rightarrow> response \<times> db" where
  "createReview userId validationErrors newId body s =
     (if validationErrors \<noteq> [] then (Errors 400 validationErrors, s)
      else if College s (b_college body) = None then (Message 404 ''College not found'', s)
      else if list_ex (\<lambda>r. user r = userId \<and> college r = b_college body) (Review s)
      then (Message 400 ''You have already reviewed this college'', s)
      else (case save_new (new_Review newId userId body) s of
              None \<Rightarrow> (Message 500 ''Server error'', s)
            | Some s' \<Rightarrow>
                (Message 201 ''Review created successfully'',
                 updateCollegeRatings (b_college body) s')))"

text \<open>\<open>Review.findOne({ _id: id, user: req.user.id })\<close> and the like: the first match.\<close>

definition findOne :: "(review \<Rightarrow> bool) \<Rightarrow> db \<Rightarrow> review option" where
  "findOne P s = find P (Review s)"

text \<open>\<open>PUT /api/reviews/:id\<close>: the fields of \<open>allowedUpdates\<close> that the body defines.\<close>

record update_body =
  u_title :: "js_string option"
  u_content :: "js_string option"
  u_ratings :: "ratings option"
  u_pros :: "js_string list option"
  u_cons :: "js_string list option"
  u_wouldRecommend :: "bool option"

definition apply_updates :: "update_body \<Rightarrow> review \<Rightarrow> review" where
  "apply_updates body r =
     r\<lparr>title := (case u_title body of None \<Rightarrow> title r | Some x \<Rightarrow> x),
       content := (case u_content body of None \<Rightarrow> content r | Some x \<Rightarrow> x),
       ratings := (case u_ratings body of None \<Rightarrow> ratings r | Some x \<Rightarrow> x),
       pros := (case u_pros body of None \<Rightarrow> pros r | Some x \<Rightarrow> x),
       cons := (case u_cons body of None \<Rightarrow> cons r | Some x \<Rightarrow> x),
       wouldRecommend := (case u_wouldRecommend body of None \<Rightarrow> wouldRecommend r | Some x \<Rightarrow> x)\<rparr>"

text \<open>
  \<open>review.save()\<close> checks the paths that were set: the validators of the schema run on the
  fields that the body defines. A failed check throws, and the route answers 500.
\<close>

definition updates_valid :: "update_body \<Rightarrow> bool" where
  "updates_valid body =
     ((case u_ratings body of None \<Rightarrow> True | Some x \<Rightarrow> ratings_valid x) \<and>
      (case u_title body of None \<Rightarrow> True | Some t \<Rightarrow> title_valid t) \<and>
      (case u_content body of None \<Rightarrow> True | Some t \<Rightarrow> content_valid t))"

definition updateReview :: "object_id \<Rightarrow> object_id \<Rightarrow> update_body \<Rightarrow> db \<Rightarrow> response \<times> db" where
  "updateReview userId reviewId body s =
     (case findOne (\<lambda>r. doc_id r = reviewId \<and> user r = userId) s of
        None \<Rightarrow> (Message 404 ''Review not found or unauthorized'', s)
      | Some review \<Rightarrow>
          (let review' = apply_updates body review in
           if updates_valid body
           then (Message 200 ''Review updated successfully'',
                 updateCollegeRatings (college review') (save review' s))
           else (Message 500 ''Server error'', s)))"

text \<open>\<open>DELETE /api/reviews/:id\<close>: the soft delete.\<close>

definition deleteReview :: "object_id \<Rightarrow> object_id \<Rightarrow> db \<Rightarrow> response \<times> db" where
  "deleteReview userId reviewId s =
     (case findOne (\<lambda>r. doc_id r = reviewId \<and> user r = userId) s of
        None \<Rightarrow> (Message 404 ''Review not found or unauthorized'', s)
      | Some review \<Rightarrow>
          (let collegeId = college review;
               s' = save (review\<lparr>isActive := False\<rparr>) s
           in (Message 200 ''Review deleted successfully'', updateCollegeRatings collegeId s')))"

text \<open>\<open>POST /api/reviews/:id/helpful\<close>; \<open>vote\<close> is the field \<open>helpful\<close> of the body.\<close>

definition markHelpful :: "object_id \<Rightarrow> object_id \<Rightarrow> bool \<Rightarrow> db \<Rightarrow> response \<times> db" where
  "markHelpful userId reviewId vote s =
     (case findOne (\<lambda>r. doc_id r = reviewId \<and> isActive r) s of
        None \<Rightarrow> (Message 404 ''Review not found'', s)
      | Some review \<Rightarrow>
          (let hasVoted = (userId \<in> set (users (helpful review)));
               review' =
                 (if vote then
                    (if \<not> hasVoted
                     then review\<lparr>helpful := \<lparr>count = count (helpful review) + 1,
                                             users = users (helpful review) @ [userId]\<rparr>\<rparr>
                     else review)
                  else
                    (if hasVoted
                     then review\<lparr>helpful := \<lparr>count = count (helpful review) - 1,
                                             users = filter (\<lambda>u. u \<noteq> userId)
                                                       (users (helpful review))\<rparr>\<rparr>
                     else review))
           in (Message 200 (if vote then ''Review marked as helpful'' else ''Helpful vote removed''),
               save review' s)))"

text \<open>\<open>POST /api/reviews/:id/report\<close>.\<close>

definition reportReview :: "object_id \<Rightarrow> object_id \<Rightarrow> db \<Rightarrow> response \<times> db" where
  "reportReview userId reviewId s =
     (case findOne (\<lambda>r. doc_id r = reviewId \<and> isActive r) s of
        None \<Rightarrow> (Message 404 ''Review not found'', s)
      | Some review \<Rightarrow>
          (if userId \<in> set (users (reported review))
           then (Message 400 ''You have already reported this review'', s)
           else (Message 200 ''Review reported successfully'',
                 save (review\<lparr>reported := \<lparr>count = count (reported review) + 1,
                                            users = users (reported review) @ [userId]\<rparr>\<rparr>) s)))"

text \<open>
  \<open>POST /api/reviews/:id/moderate\<close>, for an administrator. With the action \<open>remove\<close> the
  route sets \<open>isActive\<close> on the document it holds, calls \<open>updateCollegeRatings\<close>, which reads
  the collection, and saves the document after that call.
\<close>

definition moderateReview :: "object_id \<Rightarrow> string \<Rightarrow> db \<Rightarrow> response \<times> db" where
  "moderateReview reviewId action s =
     (case findOne (\<lambda>r. doc_id r = reviewId) s of
        None \<Rightarrow> (Message 404 ''Review not found'', s)
      | Some review \<Rightarrow>
          (if action = ''remove''
           then (let review' = review\<lparr>isActive := False\<rparr>;
                     s' = updateCollegeRatings (college review') s
                 in (Message 200 (''Review '' @ action @ ''d successfully''), save review' s'))
           else if action = ''approve''
           then (Message 200 (''Review '' @ action @ ''d successfully''),
                 save (review\<lparr>reported := \<lparr>count = 0, users = []\<rparr>\<rparr>) s)
           else (Message 200 (''Review '' @ action @ ''d successfully''), save review s)))"


section \<open>The rating summary of a college\<close>

text \<open>
  The words of the specification: the mean of a list of ratings, summed from 0 in the
  order of the list and divided by their number, and the rounding to one decimal place,
  \<open>round(x \<times> 10) / 10\<close>. Both are computed in the arithmetic of the program.
\<close>

definition mean :: "number list \<Rightarrow> number" where
  "mean xs = js_div (foldl js_add 0 xs) (of_nat (length xs))"

definition round_to_1_decimal :: "number \<Rightarrow> number" where
  "round_to_1_decimal x = js_div (Math_round (js_mul x 10)) 10"

text \<open>
  The same two in exact arithmetic: the mean as a real number, and its rounding to one
  decimal place, a tie going up. A rating is an integer rating when it is one of 1 to 5,
  as the create route requires.
\<close>

definition exact_mean :: "real list \<Rightarrow> real" where
  "exact_mean xs = sum_list xs / of_nat (length xs)"

definition round_half_up_1_decimal :: "real \<Rightarrow> real" where
  "round_half_up_1_decimal x = of_int \<lfloor>10 * x + 1 / 2\<rfloor> / 10"

definition integer_rating :: "number \<Rightarrow> bool" where
  "integer_rating x = (x = 1 \<or> x = 2 \<or> x = 3 \<or> x = 4 \<or> x = 5)"

text \<open>
  \<open>tie_ok k\<close>: the mean \<open>(2k - 1) / 20\<close>, whose ten-fold lies halfway between \<open>k - 1\<close> and \<open>k\<close>,
  is rounded up to \<open>k\<close> by the program.
\<close>

definition tie_ok :: "int \<Rightarrow> bool" where
  "tie_ok k = (\<lfloor>js_mul (to_double (of_int (2 * k - 1) / 20)) 10 + 1 / 2\<rfloor> = k)"

definition zero_summary :: college_reviews where
  "zero_summary =
     \<lparr>averageRating = 0, totalReviews = 0,
      ratingBreakdown = \<lparr>academics_mean = 0, campusLife_mean = 0, facilities_mean = 0,
                         location_mean = 0, value_mean = 0\<rparr>\<rparr>"

text \<open>
  A database for the examples: college 7 has three active reviews, rated 5, 4 and 3, and
  one that was deleted; the only review of college 8 was deleted.
\<close>

definition sample_review ::
  "object_id \<Rightarrow> object_id \<Rightarrow> object_id \<Rightarrow> number \<Rightarrow> bool \<Rightarrow> review" where
  "sample_review i u c x a =
     \<lparr>doc_id = i, user = u, college = c,
      ratings = \<lparr>overall = x, academics = x, campusLife = x, facilities = x, location = x,
                 value' = x\<rparr>,
      title = js_str ''A fine place'', content = js_str ''Good teaching and a lively campus'',
      pros = [], cons = [], wouldRecommend = True,
      helpful = \<lparr>count = 0, users = []\<rparr>, reported = \<lparr>count = 0, users = []\<rparr>,
      isActive = a\<rparr>"

definition sample_db :: db where
  "sample_db =
     \<lparr>Review = [sample_review 10 1 7 5 True, sample_review 11 2 7 4 True,
                sample_review 12 3 7 3 True, sample_review 13 4 7 1 False,
                sample_review 14 5 8 2 False],
      College = [7 \<mapsto> zero_summary, 8 \<mapsto> zero_summary]\<rparr>"

lemma foldl_js_add_map:
  "foldl js_add a (map f rs) = foldl (\<lambda>sum review. js_add sum (f review)) a rs"
  by (induction rs arbitrary: a) simp_all

lemma College_findByIdAndUpdate:
  "College s collegeId = Some c \<Longrightarrow>
   College (findByIdAndUpdate collegeId summary s) collegeId = Some summary"
  by (simp add: findByIdAndUpdate_def)

lemma sample_active_7:
  "active_reviews 7 sample_db =
     [sample_review 10 1 7 5 True, sample_review 11 2 7 4 True, sample_review 12 3 7 3 True]"
  by (simp add: active_reviews_def sample_db_def sample_review_def)

lemma mean_5_4_3: "mean [5, 4, 3] = 4"
  by (simp add: mean_def) (simp add: double_eval)

lemma round_to_1_decimal_4: "round_to_1_decimal 4 = 4"
  by (simp add: round_to_1_decimal_def) (simp add: double_eval)

subsection \<open>Integer ratings: the program computes the exact mean and its rounding\<close>

lemma foldl_js_add_integers:
  "0 \<le> a \<Longrightarrow> list_all (\<lambda>k. 0 \<le> k) ks \<Longrightarrow> a + sum_list ks \<le> 2 ^ 53 \<Longrightarrow>
   foldl js_add (of_int a) (map of_int ks) = of_int (a + sum_list ks)"
proof (induction ks arbitrary: a)
  case Nil
  then show ?case by simp
next
  case (Cons k ks)
  have s: "0 \<le> sum_list ks" using Cons.prems(2) by (auto simp: list_all_iff intro: sum_list_nonneg)
  have "js_add (of_int a) (of_int k) = to_double (of_int (a + k))" by (simp add: js_add_def)
  also have "\<dots> = of_int (a + k)" using Cons.prems s by (intro to_double_of_int) simp
  finally have "foldl js_add (of_int a) (map of_int (k # ks)) = foldl js_add (of_int (a + k)) (map of_int ks)"
    by simp
  also have "\<dots> = of_int ((a + k) + sum_list ks)"
    using Cons.prems by (intro Cons.IH) simp_all
  finally show ?case by (simp add: add.assoc)
qed

lemma mean_of_integers:
  "list_all (\<lambda>k. 0 \<le> k) ks \<Longrightarrow> sum_list ks \<le> 2 ^ 53 \<Longrightarrow>
   mean (map of_int ks) = to_double (of_int (sum_list ks) / of_nat (length ks))"
  using foldl_js_add_integers [of 0 ks] by (simp add: mean_def js_div_def)

text \<open>
  For a mean between 1 and 5, the ten-fold of its binary64 value, computed in binary64,
  is within \<open>2 ^ -46\<close> of the exact ten-fold.
\<close>

lemma times_ten_error:
  assumes "1 \<le> q" "q \<le> 5"
  shows "\<bar>js_mul (to_double q) 10 - 10 * q\<bar> < 1 / 2 ^ 46"
proof -
  have "q < 2 powi (- 50 + 53)" using assms by simp
  then have e1: "\<bar>to_double q - q\<bar> \<le> 2 powi (- 50) / 2"
    using assms by (intro to_double_error_below) simp_all
  have h: "(2::real) powi (- 50) / 2 = 1 / 2 ^ 51" by (simp add: power_int_minus)
  have b: "to_double q \<le> q + 1 / 2 ^ 51" "q - 1 / 2 ^ 51 \<le> to_double q"
    using e1 unfolding h abs_le_iff by linarith+
  have pos: "0 < to_double q * 10" using b assms by simp
  have "to_double q * 10 < 2 powi (- 47 + 53)" using b assms by simp
  then have e2: "\<bar>to_double (to_double q * 10) - to_double q * 10\<bar> \<le> 2 powi (- 47) / 2"
    using pos by (intro to_double_error_below) simp_all
  have "js_mul (to_double q) 10 - 10 * q
      = (to_double (to_double q * 10) - to_double q * 10) + 10 * (to_double q - q)"
    by (simp add: js_mul_def)
  then have "\<bar>js_mul (to_double q) 10 - 10 * q\<bar>
      \<le> \<bar>to_double (to_double q * 10) - to_double q * 10\<bar> + \<bar>10 * (to_double q - q)\<bar>"
    by (simp only: abs_triangle_ineq)
  also have "\<dots> = \<bar>to_double (to_double q * 10) - to_double q * 10\<bar> + 10 * \<bar>to_double q - q\<bar>"
    by (simp only: abs_mult abs_numeral)
  also have "\<dots> \<le> 2 powi (- 47) / 2 + 10 * (2 powi (- 50) / 2)"
    using e1 e2 by simp
  also have "\<dots> < 1 / 2 ^ 46" by (simp add: power_int_minus)
  finally show ?thesis .
qed

lemma tie_table_11:
  "tie_ok 11 \<and> tie_ok 12 \<and> tie_ok 13 \<and> tie_ok 14 \<and> tie_ok 15 \<and> tie_ok 16 \<and> tie_ok 17 \<and> tie_ok 18 \<and> tie_ok 19 \<and> tie_ok 20"
  by (simp add: tie_ok_def double_eval)

lemma tie_table_21:
  "tie_ok 21 \<and> tie_ok 22 \<and> tie_ok 23 \<and> tie_ok 24 \<and> tie_ok 25 \<and> tie_ok 26 \<and> tie_ok 27 \<and> tie_ok 28 \<and> tie_ok 29 \<and> tie_ok 30"
  by (simp add: tie_ok_def double_eval)

lemma tie_table_31:
  "tie_ok 31 \<and> tie_ok 32 \<and> tie_ok 33 \<and> tie_ok 34 \<and> tie_ok 35 \<and> tie_ok 36 \<and> tie_ok 37 \<and> tie_ok 38 \<and> tie_ok 39 \<and> tie_ok 40"
  by (simp add: tie_ok_def double_eval)

lemma tie_table_41:
  "tie_ok 41 \<and> tie_ok 42 \<and> tie_ok 43 \<and> tie_ok 44 \<and> tie_ok 45 \<and> tie_ok 46 \<and> tie_ok 47 \<and> tie_ok 48 \<and> tie_ok 49 \<and> tie_ok 50"
  by (simp add: tie_ok_def double_eval)

lemma tie_case:
  assumes "11 \<le> k" "k \<le> 50"
  shows "\<lfloor>js_mul (to_double (of_int (2 * k - 1) / 20)) 10 + 1 / 2\<rfloor> = k"
proof -
  have "k = 11 \<or> k = 12 \<or> k = 13 \<or> k = 14 \<or> k = 15 \<or> k = 16 \<or> k = 17 \<or> k = 18 \<or> k = 19 \<or> k = 20 \<or> k = 21 \<or> k = 22 \<or> k = 23 \<or> k = 24 \<or> k = 25 \<or> k = 26 \<or> k = 27 \<or> k = 28 \<or> k = 29 \<or> k = 30 \<or> k = 31 \<or> k = 32 \<or> k = 33 \<or> k = 34 \<or> k = 35 \<or> k = 36 \<or> k = 37 \<or> k = 38 \<or> k = 39 \<or> k = 40 \<or> k = 41 \<or> k = 42 \<or> k = 43 \<or> k = 44 \<or> k = 45 \<or> k = 46 \<or> k = 47 \<or> k = 48 \<or> k = 49 \<or> k = 50"
    using assms by arith
  then have "tie_ok k"
    using tie_table_11 tie_table_21 tie_table_31 tie_table_41 by blast
  then show ?thesis by (simp add: tie_ok_def)
qed

lemma Math_round_times_ten:
  fixes S n :: int
  assumes "0 < n" "n \<le> 2 ^ 40" "n \<le> S" "S \<le> 5 * n"
  shows "Math_round (js_mul (to_double (of_int S / of_int n)) 10)
       = of_int \<lfloor>10 * (of_int S / of_int n :: real) + 1 / 2\<rfloor>"
proof -
  define q :: real where "q = of_int S / of_int n"
  define k where "k = \<lfloor>10 * q + 1 / 2\<rfloor>"
  have n: "(0::real) < of_int n" using assms by simp
  have q: "1 \<le> q" "q \<le> 5"
    using assms n by (simp_all add: q_def pos_le_divide_eq pos_divide_le_eq flip: of_int_mult)
  have err: "\<bar>js_mul (to_double q) 10 - 10 * q\<bar> < 1 / 2 ^ 46"
    using q by (rule times_ten_error)
  have k: "of_int k - 1 / 2 \<le> 10 * q" "10 * q < of_int k + 1 / 2"
    unfolding k_def by linarith+
  have "\<lfloor>js_mul (to_double q) 10 + 1 / 2\<rfloor> = k"
  proof (cases "20 * S = (2 * k - 1) * n")
    case True
    then have "of_int (20 * S) = (of_int ((2 * k - 1) * n) :: real)" by simp
    then have "20 * (of_int S :: real) = of_int (2 * k - 1) * of_int n" by simp
    then have e: "q = of_int (2 * k - 1) / 20" using n by (simp add: q_def field_simps)
    then have "10 * q = of_int k - 1 / 2" by simp
    with q have "11 \<le> k" "k \<le> 50" by linarith+
    then show ?thesis unfolding e by (rule tie_case)
  next
    case False
    have d: "(0::real) < 2 * of_int n" using n by simp
    have q20: "10 * q = of_int (20 * S) / (2 * of_int n)" using n by (simp add: q_def)
    have lo_eq: "of_int ((2 * k - 1) * n) / (2 * of_int n) = (of_int k - 1 / 2 :: real)"
      using n by (simp add: field_simps)
    have hi_eq: "of_int ((2 * k + 1) * n) / (2 * of_int n) = (of_int k + 1 / 2 :: real)"
      using n by (simp add: field_simps)
    have "of_int ((2 * k - 1) * n) / (2 * of_int n) \<le> (of_int (20 * S) / (2 * of_int n) :: real)"
      using k(1) unfolding q20 lo_eq .
    then have "of_int ((2 * k - 1) * n) \<le> (of_int (20 * S) :: real)"
      using d by (simp only: divide_le_cancel)
    then have "(2 * k - 1) * n \<le> 20 * S" by (simp only: of_int_le_iff)
    with False have "(2 * k - 1) * n + 1 \<le> 20 * S" by simp
    then have "of_int ((2 * k - 1) * n + 1) \<le> (of_int (20 * S) :: real)"
      by (simp only: of_int_le_iff)
    then have "of_int ((2 * k - 1) * n + 1) / (2 * of_int n) \<le> (of_int (20 * S) / (2 * of_int n) :: real)"
      using d by (intro divide_right_mono) simp_all
    moreover have "of_int ((2 * k - 1) * n + 1) / (2 * of_int n)
        = (of_int ((2 * k - 1) * n) / (2 * of_int n) + 1 / (2 * of_int n) :: real)"
      by (simp add: add_divide_distrib)
    ultimately have lo: "of_int k - 1 / 2 + 1 / (2 * of_int n) \<le> 10 * q"
      unfolding q20 lo_eq by simp
    have "(of_int (20 * S) / (2 * of_int n) :: real) < of_int ((2 * k + 1) * n) / (2 * of_int n)"
      using k(2) unfolding q20 hi_eq .
    then have "(of_int (20 * S) :: real) < of_int ((2 * k + 1) * n)"
      using d by (simp only: divide_less_cancel)
    then have "20 * S < (2 * k + 1) * n" by (simp only: of_int_less_iff)
    then have "20 * S + 1 \<le> (2 * k + 1) * n" by simp
    then have "of_int (20 * S + 1) \<le> (of_int ((2 * k + 1) * n) :: real)"
      by (simp only: of_int_le_iff)
    then have "of_int (20 * S + 1) / (2 * of_int n) \<le> (of_int ((2 * k + 1) * n) / (2 * of_int n) :: real)"
      using d by (intro divide_right_mono) simp_all
    moreover have "of_int (20 * S + 1) / (2 * of_int n)
        = (of_int (20 * S) / (2 * of_int n) + 1 / (2 * of_int n) :: real)"
      by (simp add: add_divide_distrib)
    ultimately have hi: "10 * q \<le> of_int k + 1 / 2 - 1 / (2 * of_int n)"
      unfolding q20 hi_eq by simp
    have "(of_int n :: real) \<le> 2 ^ 40"
      using assms(2) by (metis of_int_le_iff of_int_numeral of_int_power)
    then have "2 * (of_int n :: real) \<le> 2 ^ 41" by simp
    then have "1 / 2 ^ 41 \<le> 1 / (2 * (of_int n :: real))"
      using n by (intro divide_left_mono) simp_all
    then have gap: "1 / 2 ^ 46 < 1 / (2 * (of_int n :: real))" by simp
    from err have "10 * q - 1 / 2 ^ 46 < js_mul (to_double q) 10"
      and "js_mul (to_double q) 10 < 10 * q + 1 / 2 ^ 46"
      unfolding abs_less_iff by linarith+
    with lo hi gap have "of_int k \<le> js_mul (to_double q) 10 + 1 / 2"
      and "js_mul (to_double q) 10 + 1 / 2 < of_int k + 1"
      by linarith+
    then show ?thesis by (rule floor_unique)
  qed
  then show ?thesis by (simp add: Math_round_def q_def k_def)
qed

lemma integer_rating_floor:
  "integer_rating x \<Longrightarrow> x = of_int \<lfloor>x\<rfloor> \<and> 1 \<le> \<lfloor>x\<rfloor> \<and> \<lfloor>x\<rfloor> \<le> 5"
  by (auto simp add: integer_rating_def)

lemma integer_ratings_floor:
  "list_all integer_rating xs \<Longrightarrow>
   xs = map of_int (map floor xs) \<and> list_all (\<lambda>k. 1 \<le> k \<and> k \<le> 5) (map floor xs)"
  by (induction xs) (auto dest: integer_rating_floor)

lemma sum_list_bounds:
  "list_all (\<lambda>k. 1 \<le> k \<and> k \<le> 5) ks \<Longrightarrow>
   int (length ks) \<le> sum_list ks \<and> sum_list ks \<le> 5 * int (length ks)"
  by (induction ks) auto

lemma mean_integer_ratings:
  assumes "list_all integer_rating xs" "xs \<noteq> []" "length xs \<le> 2 ^ 40"
  shows "mean xs = to_double (exact_mean xs)
       \<and> round_to_1_decimal (mean xs) = to_double (round_half_up_1_decimal (exact_mean xs))"
proof -
  define ks where "ks = map floor xs"
  have xs: "xs = map of_int ks" and r: "list_all (\<lambda>k. 1 \<le> k \<and> k \<le> 5) ks"
    using integer_ratings_floor [OF assms(1)] by (simp_all add: ks_def)
  have len: "length ks = length xs" by (simp add: ks_def)
  have n: "0 < int (length ks)" "int (length ks) \<le> 2 ^ 40"
    using assms(2,3) len by simp_all
  have b: "int (length ks) \<le> sum_list ks" "sum_list ks \<le> 5 * int (length ks)"
    using sum_list_bounds [OF r] by simp_all
  have nonneg: "list_all (\<lambda>k. 0 \<le> k) ks"
    using r by (auto simp: list_all_iff)
  have "sum_list ks \<le> 5 * 2 ^ 40" using b n by linarith
  then have small: "sum_list ks \<le> 2 ^ 53" by simp
  have s: "sum_list xs = of_int (sum_list ks)" unfolding xs by (induction ks) simp_all
  have m: "mean xs = to_double (of_int (sum_list ks) / of_int (int (length ks)))"
    using mean_of_integers [OF nonneg small] by (simp add: xs)
  have e: "exact_mean xs = of_int (sum_list ks) / of_int (int (length ks))"
    by (simp add: exact_mean_def s len)
  have "round_to_1_decimal (mean xs)
      = js_div (of_int \<lfloor>10 * (of_int (sum_list ks) / of_int (int (length ks)) :: real) + 1 / 2\<rfloor>) 10"
    unfolding round_to_1_decimal_def m
    by (simp only: Math_round_times_ten [OF n b])
  then show ?thesis
    by (simp add: m e js_div_def round_half_up_1_decimal_def)
qed

subsection \<open>What \<open>updateCollegeRatings\<close> stores\<close>

lemma College_updateCollegeRatings:
  assumes "College s collegeId = Some c"
    and "active_reviews collegeId s \<noteq> []"
  shows "College (updateCollegeRatings collegeId s) collegeId =
    Some \<lparr>averageRating =
            round_to_1_decimal (mean (map (\<lambda>r. overall (ratings r)) (active_reviews collegeId s))),
          totalReviews = length (active_reviews collegeId s),
          ratingBreakdown =
            \<lparr>academics_mean = mean (map (\<lambda>r. academics (ratings r)) (active_reviews collegeId s)),
             campusLife_mean = mean (map (\<lambda>r. campusLife (ratings r)) (active_reviews collegeId s)),
             facilities_mean = mean (map (\<lambda>r. facilities (ratings r)) (active_reviews collegeId s)),
             location_mean = mean (map (\<lambda>r. location (ratings r)) (active_reviews collegeId s)),
             value_mean = mean (map (\<lambda>r. value' (ratings r)) (active_reviews collegeId s))\<rparr>\<rparr>"
  using assms
  by (simp add: updateCollegeRatings_def Let_def College_findByIdAndUpdate mean_def
      round_to_1_decimal_def foldl_js_add_map)

text \<open>
  C1. When a college has at least one active review, \<open>updateCollegeRatings\<close> stores as
  \<open>averageRating\<close> the mean of the overall ratings of its active reviews rounded to one
  decimal place, as each field of \<open>ratingBreakdown\<close> the mean of that sub-rating, not
  rounded to a decimal place, and as \<open>totalReviews\<close> the number of its active reviews.
  The mean and the rounding are those of the program's arithmetic. Where the ratings of
  a field are integer ratings, and up to \<open>2 ^ 40\<close> reviews, they agree with exact
  arithmetic: the mean is the binary64 value nearest to the exact mean, and the rounded
  mean is the binary64 value nearest to the exact mean rounded to one decimal place.
\<close>

theorem updateCollegeRatings_nonempty:
  assumes "College s collegeId = Some c"
    and "active_reviews collegeId s \<noteq> []"
  shows "College (updateCollegeRatings collegeId s) collegeId =
    Some \<lparr>averageRating =
            round_to_1_decimal (mean (map (\<lambda>r. overall (ratings r)) (active_reviews collegeId s))),
          totalReviews = length (active_reviews collegeId s),
          ratingBreakdown =
            \<lparr>academics_mean = mean (map (\<lambda>r. academics (ratings r)) (active_reviews collegeId s)),
             campusLife_mean = mean (map (\<lambda>r. campusLife (ratings r)) (active_reviews collegeId s)),
             facilities_mean = mean (map (\<lambda>r. facilities (ratings r)) (active_reviews collegeId s)),
             location_mean = mean (map (\<lambda>r. location (ratings r)) (active_reviews collegeId s)),
             value_mean = mean (map (\<lambda>r. value' (ratings r)) (active_reviews collegeId s))\<rparr>\<rparr>
    \<and> (\<forall>f. list_all integer_rating (map f (active_reviews collegeId s))
              \<and> length (active_reviews collegeId s) \<le> 2 ^ 40 \<longrightarrow>
            mean (map f (active_reviews collegeId s))
              = to_double (exact_mean (map f (active_reviews collegeId s)))
            \<and> round_to_1_decimal (mean (map f (active_reviews collegeId s)))
              = to_double (round_half_up_1_decimal
                  (exact_mean (map f (active_reviews collegeId s)))))"
proof (intro conjI allI impI)
  show "College (updateCollegeRatings collegeId s) collegeId =
    Some \<lparr>averageRating =
            round_to_1_decimal (mean (map (\<lambda>r. overall (ratings r)) (active_reviews collegeId s))),
          totalReviews = length (active_reviews collegeId s),
          ratingBreakdown =
            \<lparr>academics_mean = mean (map (\<lambda>r. academics (ratings r)) (active_reviews collegeId s)),
             campusLife_mean = mean (map (\<lambda>r. campusLife (ratings r)) (active_reviews collegeId s)),
             facilities_mean = mean (map (\<lambda>r. facilities (ratings r)) (active_reviews collegeId s)),
             location_mean = mean (map (\<lambda>r. location (ratings r)) (active_reviews collegeId s)),
             value_mean = mean (map (\<lambda>r. value' (ratings r)) (active_reviews collegeId s))\<rparr>\<rparr>"
    using assms by (rule College_updateCollegeRatings)
next
  fix f :: "review \<Rightarrow> number"
  assume a: "list_all integer_rating (map f (active_reviews collegeId s))
    \<and> length (active_reviews collegeId s) \<le> 2 ^ 40"
  have "map f (active_reviews collegeId s) \<noteq> []" using assms(2) by simp
  with a have "mean (map f (active_reviews collegeId s))
        = to_double (exact_mean (map f (active_reviews collegeId s)))
      \<and> round_to_1_decimal (mean (map f (active_reviews collegeId s)))
        = to_double (round_half_up_1_decimal (exact_mean (map f (active_reviews collegeId s))))"
    by (intro mean_integer_ratings) simp_all
  then show "mean (map f (active_reviews collegeId s))
        = to_double (exact_mean (map f (active_reviews collegeId s)))"
    and "round_to_1_decimal (mean (map f (active_reviews collegeId s)))
        = to_double (round_half_up_1_decimal (exact_mean (map f (active_reviews collegeId s))))"
    by blast+
qed

text \<open>The scenario of the specification: overall ratings 5, 4 and 3 give 4.0 and 3 reviews.\<close>

theorem updateCollegeRatings_nonempty_witness:
  "College sample_db 7 = Some zero_summary \<and> active_reviews 7 sample_db \<noteq> [] \<and>
   College (updateCollegeRatings 7 sample_db) 7 =
     Some \<lparr>averageRating = 4, totalReviews = 3,
           ratingBreakdown = \<lparr>academics_mean = 4, campusLife_mean = 4, facilities_mean = 4,
                              location_mean = 4, value_mean = 4\<rparr>\<rparr> \<and>
   list_all integer_rating (map (\<lambda>r. overall (ratings r)) (active_reviews 7 sample_db)) \<and>
   length (active_reviews 7 sample_db) \<le> 2 ^ 40 \<and>
   exact_mean (map (\<lambda>r. overall (ratings r)) (active_reviews 7 sample_db)) = 4 \<and>
   round_half_up_1_decimal 4 = 4 \<and>
   round_to_1_decimal (mean (map (\<lambda>r. overall (ratings r)) (active_reviews 7 sample_db)))
     = to_double 4"
proof -
  have c: "College sample_db 7 = Some zero_summary" by (simp add: sample_db_def)
  have a: "active_reviews 7 sample_db \<noteq> []" by (simp add: sample_active_7)
  have i: "list_all integer_rating (map (\<lambda>r. overall (ratings r)) (active_reviews 7 sample_db))"
    by (simp add: sample_active_7 sample_review_def integer_rating_def)
  have l: "length (active_reviews 7 sample_db) \<le> 2 ^ 40" by (simp add: sample_active_7)
  have e: "exact_mean (map (\<lambda>r. overall (ratings r)) (active_reviews 7 sample_db)) = 4"
    by (simp add: sample_active_7 sample_review_def exact_mean_def)
  have r: "round_half_up_1_decimal 4 = 4" by (simp add: round_half_up_1_decimal_def)
  have m: "College (updateCollegeRatings 7 sample_db) 7 =
     Some \<lparr>averageRating = 4, totalReviews = 3,
           ratingBreakdown = \<lparr>academics_mean = 4, campusLife_mean = 4, facilities_mean = 4,
                              location_mean = 4, value_mean = 4\<rparr>\<rparr>"
    using updateCollegeRatings_nonempty [OF c a]
    by (simp add: c sample_active_7 sample_review_def mean_5_4_3 round_to_1_decimal_4)
  have "round_to_1_decimal (mean (map (\<lambda>r. overall (ratings r)) (active_reviews 7 sample_db)))
     = to_double (round_half_up_1_decimal
         (exact_mean (map (\<lambda>r. overall (ratings r)) (active_reviews 7 sample_db))))"
    using updateCollegeRatings_nonempty [OF c a] i l by blast
  then have "round_to_1_decimal
        (mean (map (\<lambda>r. overall (ratings r)) (active_reviews 7 sample_db))) = to_double 4"
    by (simp only: e r)
  with m show ?thesis using c a i l e r by simp
qed

text \<open>
  C2. When a college has no active review, \<open>updateCollegeRatings\<close> stores the zero summary:
  \<open>averageRating\<close>, \<open>totalReviews\<close> and the five fields of \<open>ratingBreakdown\<close> are 0.
\<close>

theorem updateCollegeRatings_empty:
  assumes "College s collegeId = Some c"
    and "active_reviews collegeId s = []"
  shows "College (updateCollegeRatings collegeId s) collegeId =
    Some \<lparr>averageRating = 0, totalReviews = 0,
          ratingBreakdown = \<lparr>academics_mean = 0, campusLife_mean = 0, facilities_mean = 0,
                             location_mean = 0, value_mean = 0\<rparr>\<rparr>"
  using assms
  by (simp add: updateCollegeRatings_def Let_def College_findByIdAndUpdate)

theorem updateCollegeRatings_empty_witness:
  "College sample_db 8 = Some zero_summary \<and> active_reviews 8 sample_db = [] \<and>
   College (updateCollegeRatings 8 sample_db) 8 =
     Some \<lparr>averageRating = 0, totalReviews = 0,
           ratingBreakdown = \<lparr>academics_mean = 0, campusLife_mean = 0, facilities_mean = 0,
                              location_mean = 0, value_mean = 0\<rparr>\<rparr>"
proof -
  have c: "College sample_db 8 = Some zero_summary" by (simp add: sample_db_def)
  have a: "active_reviews 8 sample_db = []"
    by (simp add: active_reviews_def sample_db_def sample_review_def)
  show ?thesis using updateCollegeRatings_empty [OF c a] by (simp add: c a)
qed


section \<open>Properties of the review score\<close>

text \<open>
  The words of the specification for the score: its four terms, and the final score. The
  arithmetic is that of the program; the counts are integers.
\<close>

definition weightedRatingSum :: "ratings \<Rightarrow> number" where
  "weightedRatingSum r =
     js_add (js_add (js_add (js_add (js_add
       (js_mul lit_0_3 (overall r))
       (js_mul lit_0_2 (academics r)))
       (js_mul lit_0_15 (campusLife r)))
       (js_mul lit_0_15 (facilities r)))
       (js_mul lit_0_1 (location r)))
       (js_mul lit_0_1 (value' r))"

definition helpfulBoost :: "int \<Rightarrow> number" where
  "helpfulBoost helpfulCount = min (js_mul (of_int helpfulCount) lit_0_1) 2"

definition reportPenalty :: "int \<Rightarrow> number" where
  "reportPenalty reportCount = min (js_mul (of_int reportCount) (1 / 2)) 3"

definition contentScore :: "nat \<Rightarrow> nat \<Rightarrow> nat \<Rightarrow> number" where
  "contentScore contentLength prosCount consCount =
     min (js_add (js_div (of_nat contentLength) 200)
                 (js_mul (js_add (of_nat prosCount) (of_nat consCount)) lit_0_2)) 1"

definition scoreReview :: "ratings \<Rightarrow> int \<Rightarrow> int \<Rightarrow> nat \<Rightarrow> nat \<Rightarrow> nat \<Rightarrow> number" where
  "scoreReview r helpfulCount reportCount contentLength prosCount consCount =
     round_to_1_decimal
       (max 0 (js_add (js_sub (js_add (weightedRatingSum r) (helpfulBoost helpfulCount))
                              (reportPenalty reportCount))
                      (contentScore contentLength prosCount consCount)))"

text \<open>
  The scenario of the specification: every rating 5, 25 helpful votes, no report, a
  content of 300 code units, three pros and one con.
\<close>

definition scenario_review :: review_obj where
  "scenario_review =
     \<lparr>obj_ratings = \<lparr>overall = 5, academics = 5, campusLife = 5, facilities = 5,
                      location = 5, value' = 5\<rparr>,
      obj_content = replicate 300 97,
      obj_pros = Some [js_str ''teaching'', js_str ''library'', js_str ''sports''],
      obj_cons = Some [js_str ''parking''],
      obj_wouldRecommend = True,
      obj_helpful = Some \<lparr>count = 25, users = [2..<27]\<rparr>,
      obj_reported = Some \<lparr>count = 0, users = []\<rparr>\<rparr>"

definition mean_of_ratings :: "ratings \<Rightarrow> number" where
  "mean_of_ratings r =
     js_div (js_add (js_add (js_add (js_add (js_add
       (overall r) (academics r)) (campusLife r)) (facilities r)) (location r)) (value' r)) 6"

definition six_ratings :: "ratings \<Rightarrow> number list" where
  "six_ratings r = [overall r, academics r, campusLife r, facilities r, location r, value' r]"

lemma js_mul_commute: "js_mul a b = js_mul b a"
  by (simp add: js_mul_def mult.commute)

lemma calculateReviewScore_present:
  "obj_helpful review = Some h \<Longrightarrow> obj_reported review = Some rp \<Longrightarrow>
   calculateReviewScore review =
     Inr (scoreReview (obj_ratings review) (count h) (count rp)
            (length (obj_content review)) (length_or_0 (obj_pros review))
            (length_or_0 (obj_cons review)))"
  by (simp add: calculateReviewScore_def Let_def scoreReview_def round_to_1_decimal_def
      weightedRatingSum_def helpfulBoost_def reportPenalty_def contentScore_def
      js_mul_commute [of lit_0_3] js_mul_commute [of lit_0_2] js_mul_commute [of lit_0_15]
      js_mul_commute [of lit_0_1 "location _"] js_mul_commute [of lit_0_1 "value' _"])

lemma scenario_score: "calculateReviewScore scenario_review = Inr 8"
  by (simp add: calculateReviewScore_def scenario_review_def length_or_0_def Let_def)
     (simp add: double_eval)

lemma to_double_integer_rating: "integer_rating x \<Longrightarrow> to_double x = x"
proof -
  assume "integer_rating x"
  then have "x = of_int \<lfloor>x\<rfloor>" "\<bar>\<lfloor>x\<rfloor>\<bar> \<le> 2 ^ 53"
    using integer_rating_floor [of x] by simp_all
  then show ?thesis using to_double_of_int [of "\<lfloor>x\<rfloor>"] by simp
qed

lemma mean_of_ratings_mean:
  "integer_rating (overall r) \<Longrightarrow> mean_of_ratings r = mean (six_ratings r)"
  by (simp add: mean_of_ratings_def mean_def six_ratings_def js_add_def to_double_integer_rating)

lemma to_double_4: "to_double 4 = 4"
  by (simp add: double_eval)

lemma to_double_2: "to_double 2 = 2"
  by (simp add: double_eval)

lemma to_double_23_6: "to_double (23 / 6) < 4"
  by (simp add: double_eval)

lemma to_double_13_6: "2 < to_double (13 / 6)"
  by (simp add: double_eval)

lemma mean_six_thresholds:
  assumes "list_all integer_rating xs" "length xs = 6"
  shows "(4 \<le> mean xs) = (4 \<le> exact_mean xs) \<and> (mean xs \<le> 2) = (exact_mean xs \<le> 2)"
proof -
  have ne: "xs \<noteq> []" using assms(2) by auto
  have "length xs \<le> 2 ^ 40" using assms(2) by simp
  then have m: "mean xs = to_double (exact_mean xs)"
    using mean_integer_ratings [OF assms(1) ne] by simp
  define S where "S = sum_list (map floor xs)"
  have "xs = map of_int (map floor xs)" using integer_ratings_floor [OF assms(1)] by simp
  then have "sum_list xs = sum_list (map of_int (map floor xs))" by simp
  also have "\<dots> = of_int S" unfolding S_def by (induction "map floor xs" arbitrary: xs) auto
  finally have e: "exact_mean xs = of_int S / 6" by (simp add: exact_mean_def assms(2))
  have a: "(4 \<le> to_double (of_int S / 6)) = (4 \<le> (of_int S / 6 :: real))"
  proof
    assume h: "4 \<le> to_double (of_int S / 6)"
    show "4 \<le> (of_int S / 6 :: real)"
    proof (rule ccontr)
      assume "\<not> 4 \<le> (of_int S / 6 :: real)"
      then have "S \<le> 23" by simp
      then have "(of_int S / 6 :: real) \<le> 23 / 6" by simp
      then have "to_double (of_int S / 6) \<le> to_double (23 / 6)" by (rule to_double_mono)
      with to_double_23_6 h show False by linarith
    qed
  next
    assume "4 \<le> (of_int S / 6 :: real)"
    then have "to_double 4 \<le> to_double (of_int S / 6)" by (rule to_double_mono)
    then show "4 \<le> to_double (of_int S / 6)" by (simp add: to_double_4)
  qed
  have b: "(to_double (of_int S / 6) \<le> 2) = ((of_int S / 6 :: real) \<le> 2)"
  proof
    assume h: "to_double (of_int S / 6) \<le> 2"
    show "(of_int S / 6 :: real) \<le> 2"
    proof (rule ccontr)
      assume "\<not> (of_int S / 6 :: real) \<le> 2"
      then have "13 \<le> S" by simp
      then have "13 / 6 \<le> (of_int S / 6 :: real)" by simp
      then have "to_double (13 / 6) \<le> to_double (of_int S / 6)" by (rule to_double_mono)
      with to_double_13_6 h show False by linarith
    qed
  next
    assume "(of_int S / 6 :: real) \<le> 2"
    then have "to_double (of_int S / 6) \<le> to_double 2" by (rule to_double_mono)
    then show "to_double (of_int S / 6) \<le> 2" by (simp add: to_double_2)
  qed
  show ?thesis unfolding m e using a b by simp
qed

lemma scenario_sentiment: "getReviewSentiment scenario_review = ''positive''"
  by (simp add: getReviewSentiment_def scenario_review_def length_or_0_def Let_def)
     (simp add: double_eval)

lemma lit_0_1_nonneg: "0 \<le> lit_0_1"
  by (simp add: lit_0_1_def to_double_nonneg)

lemma helpfulBoost_mono: "h1 \<le> h2 \<Longrightarrow> helpfulBoost h1 \<le> helpfulBoost h2"
proof -
  assume "h1 \<le> h2"
  then have "of_int h1 * lit_0_1 \<le> of_int h2 * lit_0_1"
    by (simp add: mult_right_mono lit_0_1_nonneg)
  then have "js_mul (of_int h1) lit_0_1 \<le> js_mul (of_int h2) lit_0_1"
    unfolding js_mul_def by (rule to_double_mono)
  then show ?thesis unfolding helpfulBoost_def by (rule min.mono) simp
qed

lemma reportPenalty_mono: "r1 \<le> r2 \<Longrightarrow> reportPenalty r1 \<le> reportPenalty r2"
proof -
  assume "r1 \<le> r2"
  then have "of_int r1 * (1 / 2) \<le> (of_int r2 * (1 / 2) :: real)" by simp
  then have "js_mul (of_int r1) (1 / 2) \<le> js_mul (of_int r2) (1 / 2)"
    unfolding js_mul_def by (rule to_double_mono)
  then show ?thesis unfolding reportPenalty_def by (rule min.mono) simp
qed

lemma round_to_1_decimal_mono: "x \<le> y \<Longrightarrow> round_to_1_decimal x \<le> round_to_1_decimal y"
proof -
  assume "x \<le> y"
  then have "x * 10 \<le> y * 10" by simp
  then have "js_mul x 10 \<le> js_mul y 10" unfolding js_mul_def by (rule to_double_mono)
  then have "Math_round (js_mul x 10) \<le> Math_round (js_mul y 10)" by (rule Math_round_mono)
  then have "Math_round (js_mul x 10) / 10 \<le> Math_round (js_mul y 10) / 10" by simp
  then show ?thesis unfolding round_to_1_decimal_def js_div_def by (rule to_double_mono)
qed

lemma final_mono:
  assumes "b1 \<le> b2" "p2 \<le> p1"
  shows "round_to_1_decimal (max 0 (js_add (js_sub (js_add w b1) p1) c))
       \<le> round_to_1_decimal (max 0 (js_add (js_sub (js_add w b2) p2) c))"
proof -
  have "js_add w b1 \<le> js_add w b2"
    unfolding js_add_def using assms(1) by (intro to_double_mono) simp
  then have "js_sub (js_add w b1) p1 \<le> js_sub (js_add w b2) p2"
    unfolding js_sub_def using assms(2) by (intro to_double_mono) simp
  then have "js_add (js_sub (js_add w b1) p1) c \<le> js_add (js_sub (js_add w b2) p2) c"
    unfolding js_add_def by (intro to_double_mono) simp
  then have "max 0 (js_add (js_sub (js_add w b1) p1) c)
      \<le> max 0 (js_add (js_sub (js_add w b2) p2) c)"
    by (intro max.mono) simp_all
  then show ?thesis by (rule round_to_1_decimal_mono)
qed

lemma scoreReview_mono:
  "h1 \<le> h2 \<Longrightarrow> r2 \<le> r1 \<Longrightarrow> scoreReview r h1 r1 n p c \<le> scoreReview r h2 r2 n p c"
  unfolding scoreReview_def by (intro final_mono helpfulBoost_mono reportPenalty_mono)

lemma helpful_3_score:
  "calculateReviewScore (scenario_review\<lparr>obj_helpful := Some \<lparr>count = 3, users = [2, 3, 4]\<rparr>\<rparr>)
     = Inr (to_double (63 / 10))"
  by (simp add: calculateReviewScore_def scenario_review_def length_or_0_def Let_def)
     (simp add: double_eval)

lemma reported_4_score:
  "calculateReviewScore (scenario_review\<lparr>obj_reported := Some \<lparr>count = 4, users = [2, 3, 4, 5]\<rparr>\<rparr>)
     = Inr 6"
  by (simp add: calculateReviewScore_def scenario_review_def length_or_0_def Let_def)
     (simp add: double_eval)


text \<open>
  C5. With every other field fixed, the score does not decrease when the number of
  helpful votes grows, and does not increase when the number of reports grows; the boost
  is at most 2 and the penalty at most 3.
\<close>

theorem calculateReviewScore_monotone:
  assumes "h1 \<le> h2" and "r1 \<le> r2"
  shows "(\<exists>a b. calculateReviewScore
             (review\<lparr>obj_helpful := Some \<lparr>count = h1, users = us1\<rparr>, obj_reported := Some rp\<rparr>) = Inr a
           \<and> calculateReviewScore
             (review\<lparr>obj_helpful := Some \<lparr>count = h2, users = us2\<rparr>, obj_reported := Some rp\<rparr>) = Inr b
           \<and> a \<le> b)
       \<and> (\<exists>a b. calculateReviewScore
             (review\<lparr>obj_helpful := Some hp, obj_reported := Some \<lparr>count = r1, users = us1\<rparr>\<rparr>) = Inr a
           \<and> calculateReviewScore
             (review\<lparr>obj_helpful := Some hp, obj_reported := Some \<lparr>count = r2, users = us2\<rparr>\<rparr>) = Inr b
           \<and> b \<le> a)
       \<and> helpfulBoost h2 \<le> 2 \<and> reportPenalty r2 \<le> 3"
  using assms
  by (simp add: calculateReviewScore_present scoreReview_mono helpfulBoost_def reportPenalty_def)

theorem calculateReviewScore_monotone_witness:
  "(3::int) \<le> 25 \<and> (0::int) \<le> 4 \<and>
   calculateReviewScore (scenario_review\<lparr>obj_helpful := Some \<lparr>count = 3, users = [2, 3, 4]\<rparr>\<rparr>)
     = Inr (to_double (63 / 10)) \<and>
   calculateReviewScore scenario_review = Inr 8 \<and>
   calculateReviewScore (scenario_review\<lparr>obj_reported := Some \<lparr>count = 4, users = [2, 3, 4, 5]\<rparr>\<rparr>)
     = Inr 6 \<and>
   to_double (63 / 10) \<le> 8 \<and> (6::real) \<le> 8"
proof -
  have h: "(3::int) \<le> 25" and r: "(0::int) \<le> 4" by simp_all
  have e1: "scenario_review\<lparr>obj_helpful := Some \<lparr>count = 25, users = [2..<27]\<rparr>,
             obj_reported := Some \<lparr>count = 0, users = []\<rparr>\<rparr> = scenario_review"
    by (simp add: scenario_review_def)
  have e2: "scenario_review\<lparr>obj_helpful := Some \<lparr>count = 3, users = [2, 3, 4]\<rparr>,
             obj_reported := Some \<lparr>count = 0, users = []\<rparr>\<rparr>
      = scenario_review\<lparr>obj_helpful := Some \<lparr>count = 3, users = [2, 3, 4]\<rparr>\<rparr>"
    by (simp add: scenario_review_def)
  from calculateReviewScore_monotone [OF h r, where review = scenario_review
      and ?us1.0 = "[2, 3, 4]" and rp = "\<lparr>count = 0, users = []\<rparr>" and ?us2.0 = "[2..<27]"
      and hp = "\<lparr>count = 25, users = [2..<27]\<rparr>"]
  obtain a b where
    "calculateReviewScore
       (scenario_review\<lparr>obj_helpful := Some \<lparr>count = 3, users = [2, 3, 4]\<rparr>\<rparr>) = Inr a"
    "calculateReviewScore scenario_review = Inr b" "a \<le> b"
    unfolding e1 e2 by blast
  then have "to_double (63 / 10) \<le> 8"
    by (simp add: helpful_3_score scenario_score)
  then show ?thesis
    by (simp add: helpful_3_score scenario_score reported_4_score)
qed



text \<open>
  C7. \<open>getReviewSentiment\<close> is \<open>positive\<close> exactly when the mean of the six ratings is at
  least 4, the review recommends and has more pros than cons; \<open>negative\<close> exactly when
  the mean is at most 2, the review does not recommend and has more cons than pros;
  \<open>neutral\<close> in every other case. The mean is that of the program's arithmetic; for
  integer ratings it passes the two thresholds exactly when the exact mean does.
\<close>

theorem getReviewSentiment_cases:
  "(getReviewSentiment review = ''positive'')
     = (4 \<le> mean_of_ratings (obj_ratings review) \<and> obj_wouldRecommend review
        \<and> length_or_0 (obj_cons review) < length_or_0 (obj_pros review))
   \<and> (getReviewSentiment review = ''negative'')
     = (mean_of_ratings (obj_ratings review) \<le> 2 \<and> \<not> obj_wouldRecommend review
        \<and> length_or_0 (obj_pros review) < length_or_0 (obj_cons review))
   \<and> (getReviewSentiment review = ''neutral'')
     = (\<not> (4 \<le> mean_of_ratings (obj_ratings review) \<and> obj_wouldRecommend review
            \<and> length_or_0 (obj_cons review) < length_or_0 (obj_pros review))
        \<and> \<not> (mean_of_ratings (obj_ratings review) \<le> 2 \<and> \<not> obj_wouldRecommend review
            \<and> length_or_0 (obj_pros review) < length_or_0 (obj_cons review)))
   \<and> (list_all integer_rating (six_ratings (obj_ratings review)) \<longrightarrow>
        (4 \<le> mean_of_ratings (obj_ratings review))
          = (4 \<le> exact_mean (six_ratings (obj_ratings review)))
        \<and> (mean_of_ratings (obj_ratings review) \<le> 2)
          = (exact_mean (six_ratings (obj_ratings review)) \<le> 2))"
proof (intro conjI impI)
  assume a: "list_all integer_rating (six_ratings (obj_ratings review))"
  then have "mean_of_ratings (obj_ratings review) = mean (six_ratings (obj_ratings review))"
    by (intro mean_of_ratings_mean) (simp add: six_ratings_def)
  moreover have "length (six_ratings (obj_ratings review)) = 6" by (simp add: six_ratings_def)
  ultimately show
    "(4 \<le> mean_of_ratings (obj_ratings review))
       = (4 \<le> exact_mean (six_ratings (obj_ratings review)))"
    "(mean_of_ratings (obj_ratings review) \<le> 2)
       = (exact_mean (six_ratings (obj_ratings review)) \<le> 2)"
    using mean_six_thresholds [OF a] by simp_all
qed (auto simp add: getReviewSentiment_def Let_def mean_of_ratings_def)

text \<open>The review of the scenario: a mean of 5, recommended, three pros and one con.\<close>

theorem getReviewSentiment_cases_witness:
  "list_all integer_rating (six_ratings (obj_ratings scenario_review))
   \<and> exact_mean (six_ratings (obj_ratings scenario_review)) = 5
   \<and> 4 \<le> mean_of_ratings (obj_ratings scenario_review)
   \<and> obj_wouldRecommend scenario_review
   \<and> length_or_0 (obj_cons scenario_review) < length_or_0 (obj_pros scenario_review)
   \<and> getReviewSentiment scenario_review = ''positive''"
proof -
  have i: "list_all integer_rating (six_ratings (obj_ratings scenario_review))"
    by (simp add: six_ratings_def scenario_review_def integer_rating_def)
  have e: "exact_mean (six_ratings (obj_ratings scenario_review)) = 5"
    by (simp add: six_ratings_def scenario_review_def exact_mean_def)
  have w: "obj_wouldRecommend scenario_review"
    "length_or_0 (obj_cons scenario_review) < length_or_0 (obj_pros scenario_review)"
    by (simp_all add: scenario_review_def length_or_0_def)
  from getReviewSentiment_cases [of scenario_review] i e
  have m: "4 \<le> mean_of_ratings (obj_ratings scenario_review)" by simp
  with getReviewSentiment_cases [of scenario_review] w
  have "getReviewSentiment scenario_review = ''positive''" by blast
  with i e m w show ?thesis by simp
qed


section \<open>Properties of the content check\<close>

text \<open>The meaningful words of the specification: the pieces longer than 2 code units.\<close>

definition meaningful_words :: "js_string \<Rightarrow> js_string list" where
  "meaningful_words s = filter (\<lambda>word. 2 < length word) (split_whitespace s)"

definition content_19_words :: js_string where
  "content_19_words = js_str
     '' The teaching here was excellent and the campus is safe, labs are modern,  staff were helpful, food is ok so fees seem fair ''"

definition content_20_words :: js_string where
  "content_20_words = content_19_words @ js_str ''overall''"

text \<open>
  The pieces of \<open>split_whitespace\<close> hold no white space, and together they are the string
  without its white space.
\<close>

lemma concat_split_from:
  "concat (split_from cur in_run s) = rev cur @ filter (\<lambda>c. \<not> is_space c) s"
  by (induction s arbitrary: cur in_run) simp_all

lemma split_from_no_space:
  "list_all (\<lambda>c. \<not> is_space c) cur \<Longrightarrow>
   list_all (list_all (\<lambda>c. \<not> is_space c)) (split_from cur in_run s)"
  by (induction s arbitrary: cur in_run) simp_all

lemma split_whitespace_pieces:
  "concat (split_whitespace s) = filter (\<lambda>c. \<not> is_space c) s
   \<and> list_all (list_all (\<lambda>c. \<not> is_space c)) (split_whitespace s)"
  by (simp add: split_whitespace_def concat_split_from split_from_no_space)

text \<open>
  The patterns on examples; the content \<open>AAAAAA this is great\<close> of the specification is
  spam by its repeated character, and too short.
\<close>

lemmas content_eval =
  js_str_def is_space_def is_line_terminator_def all_caps_def promotion_def matches_at_def
  canonicalize_def toLowerCase_def string_includes_def split_whitespace_def spamPatterns_def
  profanityWords_def

lemma promotion_examples:
  "promotion (js_str ''Buy it NOW'') \<and> \<not> promotion (js_str ''now buy'')"
  by (simp add: content_eval)

lemma all_caps_examples:
  "all_caps (js_str ''THIS PLACE IS GREAT!!'') \<and> \<not> all_caps (js_str ''GREAT!!'')"
  by (simp add: content_eval)

lemma validateReviewContent_repeated_characters:
  "validateReviewContent (js_str ''AAAAAA this is great'') (js_str ''Great'')
     = \<lparr>isValid = False,
        errors = [''Content appears to be spam'',
                  ''Review must contain at least 20 meaningful words'']\<rparr>"
  by (simp add: validateReviewContent_def Let_def content_eval)

lemma words_message:
  fixes content title :: js_string
  shows "(''Review must contain at least 20 meaningful words''
      \<in> set (errors (validateReviewContent content title)))
   = (length (meaningful_words content) < 20)"
  by (simp add: validateReviewContent_def Let_def spamPatterns_def meaningful_words_def)

lemma length_19: "length (meaningful_words content_19_words) = 19"
  by (simp add: meaningful_words_def content_19_words_def split_whitespace_def js_str_def is_space_def)

lemma length_20: "length (meaningful_words content_20_words) = 20"
  by (simp add: meaningful_words_def content_20_words_def content_19_words_def split_whitespace_def js_str_def is_space_def)

text \<open>
  C8. \<open>validateReviewContent\<close> splits the content at its white space, so that the pieces
  hold none of it and all the rest of the content, and counts the pieces that are longer
  than 2 code units. Its errors hold the message on 20 meaningful words exactly
  when there are fewer than 20 of them, whatever the other checks find, and \<open>isValid\<close>
  says that the list of errors is empty. A content of 19 such words gets the message, and
  the same content with a twentieth word does not.
\<close>

theorem validateReviewContent_word_count:
  fixes content title :: js_string
  shows "concat (split_whitespace content) = filter (\<lambda>c. \<not> is_space c) content
   \<and> list_all (list_all (\<lambda>c. \<not> is_space c)) (split_whitespace content)
   \<and> meaningful_words content = filter (\<lambda>word. 2 < length word) (split_whitespace content)
   \<and> (''Review must contain at least 20 meaningful words''
        \<in> set (errors (validateReviewContent content title)))
     = (length (meaningful_words content) < 20)
   \<and> isValid (validateReviewContent content title)
     = (errors (validateReviewContent content title) = [])
   \<and> length (meaningful_words content_19_words) = 19
   \<and> ''Review must contain at least 20 meaningful words''
        \<in> set (errors (validateReviewContent content_19_words title))
   \<and> length (meaningful_words content_20_words) = 20
   \<and> ''Review must contain at least 20 meaningful words''
        \<notin> set (errors (validateReviewContent content_20_words title))"
proof (intro conjI)
  show "isValid (validateReviewContent content title)
     = (errors (validateReviewContent content title) = [])"
    by (simp add: validateReviewContent_def Let_def)
qed (simp_all add: words_message length_19 length_20 meaningful_words_def [symmetric]
    split_whitespace_pieces)

section \<open>Properties of the routes\<close>

text \<open>
  The counter of a \<open>helpful\<close> or \<open>reported\<close> object matches when it is the number of
  users in its array; a review is in step when both of its counters match.
\<close>

definition count_matches :: "votes \<Rightarrow> bool" where
  "count_matches v = (count v = int (card (set (users v))))"


text \<open>
  The stronger reading, on the arrays as they are: no user twice, and each counter the
  length of its array.
\<close>

definition count_is_length :: "votes \<Rightarrow> bool" where
  "count_is_length v = (distinct (users v) \<and> count v = int (length (users v)))"

definition votes_exact :: "review \<Rightarrow> bool" where
  "votes_exact r = (count_is_length (helpful r) \<and> count_is_length (reported r))"

text \<open>
  The summary of a college is current when \<open>updateCollegeRatings\<close> would store what is
  stored already.
\<close>

definition summary_current :: "object_id \<Rightarrow> db \<Rightarrow> bool" where
  "summary_current collegeId s =
     (College (updateCollegeRatings collegeId s) collegeId = College s collegeId)"


text \<open>
  The sample database once the summary of college 7 is computed, and that database after
  an administrator removes review 12.
\<close>

definition rated_db :: db where
  "rated_db = updateCollegeRatings 7 sample_db"

definition moderated_db :: db where
  "moderated_db = snd (moderateReview 12 ''remove'' rated_db)"

lemma findOne_Some: "findOne P s = Some r \<Longrightarrow> r \<in> set (Review s) \<and> P r"
  by (auto simp: findOne_def find_Some_iff)

lemma list_all_save:
  "list_all Q (Review s) \<Longrightarrow> Q r \<Longrightarrow> list_all Q (Review (save r s))"
  by (auto simp add: save_def list_all_iff)






lemma Review_updateCollegeRatings [simp]: "Review (updateCollegeRatings c s) = Review s"
  by (simp add: updateCollegeRatings_def findByIdAndUpdate_def Let_def)




lemma count_is_length_matches: "count_is_length v \<Longrightarrow> count_matches v"
  by (simp add: count_is_length_def count_matches_def distinct_card)

lemma count_is_length_filter:
  "u \<in> set (users v) \<Longrightarrow> count_is_length v \<Longrightarrow>
   count_is_length \<lparr>count = count v - 1, users = filter (\<lambda>x. x \<noteq> u) (users v)\<rparr>"
proof -
  assume a: "u \<in> set (users v)" "count_is_length v"
  then have d: "distinct (users v)" by (simp add: count_is_length_def)
  have "length (filter (\<lambda>x. x \<noteq> u) (users v)) = card (set (users v) - {u})"
    using d by (metis distinct_card distinct_filter set_minus_filter_out)
  moreover have "card (set (users v) - {u}) = card (set (users v)) - 1" using a by simp
  moreover have "0 < card (set (users v))" using a by (auto simp: card_gt_0_iff)
  moreover have "card (set (users v)) = length (users v)" using d by (rule distinct_card)
  ultimately have "int (length (filter (\<lambda>x. x \<noteq> u) (users v))) = int (length (users v)) - 1"
    by linarith
  then show ?thesis using a by (simp add: count_is_length_def)
qed

lemma votes_exact_preserved:
  assumes "list_all votes_exact (Review s)"
  shows "list_all votes_exact (Review (snd (markHelpful userId reviewId vote s)))
       \<and> list_all votes_exact (Review (snd (reportReview userId reviewId s)))
       \<and> list_all votes_exact (Review (snd (moderateReview reviewId action s)))"
proof (intro conjI)
  show "list_all votes_exact (Review (snd (markHelpful userId reviewId vote s)))"
  proof (cases "findOne (\<lambda>r. doc_id r = reviewId \<and> isActive r) s")
    case None
    then show ?thesis using assms by (simp add: markHelpful_def)
  next
    case (Some r)
    then have "r \<in> set (Review s)" by (simp add: findOne_Some)
    then have r: "votes_exact r" using assms by (simp add: list_all_iff)
    show ?thesis
      using Some r assms count_is_length_filter [of userId "helpful r"]
      by (auto simp add: markHelpful_def Let_def votes_exact_def count_is_length_def
          intro!: list_all_save)
  qed
  show "list_all votes_exact (Review (snd (reportReview userId reviewId s)))"
  proof (cases "findOne (\<lambda>r. doc_id r = reviewId \<and> isActive r) s")
    case None
    then show ?thesis using assms by (simp add: reportReview_def)
  next
    case (Some r)
    then have "r \<in> set (Review s)" by (simp add: findOne_Some)
    then have r: "votes_exact r" using assms by (simp add: list_all_iff)
    show ?thesis
      using Some r assms
      by (auto simp add: reportReview_def Let_def votes_exact_def count_is_length_def
          intro!: list_all_save)
  qed
  show "list_all votes_exact (Review (snd (moderateReview reviewId action s)))"
  proof (cases "findOne (\<lambda>r. doc_id r = reviewId) s")
    case None
    then show ?thesis using assms by (simp add: moderateReview_def)
  next
    case (Some r)
    then have "r \<in> set (Review s)" by (simp add: findOne_Some)
    then have r: "votes_exact r" using assms by (simp add: list_all_iff)
    show ?thesis
      using Some r assms
      by (auto simp add: moderateReview_def Let_def votes_exact_def count_is_length_def
          intro!: list_all_save)
  qed
qed






subsection \<open>The summary after a request\<close>

lemma Review_findByIdAndUpdate [simp]: "Review (findByIdAndUpdate c x s) = Review s"
  by (simp add: findByIdAndUpdate_def)

lemma active_reviews_findByIdAndUpdate [simp]:
  "active_reviews c (findByIdAndUpdate c' x s) = active_reviews c s"
  by (simp add: active_reviews_def)

lemma findByIdAndUpdate_twice [simp]:
  "findByIdAndUpdate c x (findByIdAndUpdate c x s) = findByIdAndUpdate c x s"
  by (simp add: findByIdAndUpdate_def)

lemma updateCollegeRatings_twice:
  "updateCollegeRatings c (updateCollegeRatings c s) = updateCollegeRatings c s"
  by (simp add: updateCollegeRatings_def Let_def)

lemma summary_current_updateCollegeRatings: "summary_current c (updateCollegeRatings c s)"
  by (simp add: summary_current_def updateCollegeRatings_twice)

lemma createReview_summary_current:
  "fst (createReview userId validationErrors newId body s) = Message 201 m \<Longrightarrow>
   summary_current (b_college body) (snd (createReview userId validationErrors newId body s))"
  by (auto simp add: createReview_def summary_current_updateCollegeRatings
      split: if_splits option.splits)

lemma college_save [simp]: "College (save r s) = College s"
  by (simp add: save_def)

lemma updateReview_summary_current:
  "findOne (\<lambda>r. doc_id r = reviewId \<and> user r = userId) s = Some r \<Longrightarrow>
   fst (updateReview userId reviewId body s) = Message 200 m \<Longrightarrow>
   summary_current (college r) (snd (updateReview userId reviewId body s))"
  by (auto simp add: updateReview_def Let_def summary_current_updateCollegeRatings apply_updates_def
      split: if_splits)

lemma deleteReview_summary_current:
  "findOne (\<lambda>r. doc_id r = reviewId \<and> user r = userId) s = Some r \<Longrightarrow>
   summary_current (college r) (snd (deleteReview userId reviewId s))"
  by (simp add: deleteReview_def Let_def summary_current_updateCollegeRatings)

lemma rated_db_eq:
  "rated_db = sample_db\<lparr>College := (College sample_db)(7 \<mapsto>
      \<lparr>averageRating = 4, totalReviews = 3,
           ratingBreakdown = \<lparr>academics_mean = 4, campusLife_mean = 4, facilities_mean = 4,
                              location_mean = 4, value_mean = 4\<rparr>\<rparr>)\<rparr>"
  apply (simp add: rated_db_def updateCollegeRatings_def sample_active_7 Let_def findByIdAndUpdate_def)
  apply (simp add: sample_db_def sample_review_def)
  apply (simp add: double_eval numeral_3_eq_3)
  done

lemma moderated_db_eq:
  "moderated_db = rated_db\<lparr>Review :=
      [sample_review 10 1 7 5 True, sample_review 11 2 7 4 True,
       sample_review 12 3 7 3 False, sample_review 13 4 7 1 False,
       sample_review 14 5 8 2 False]\<rparr>"
proof -
  have f: "findOne (\<lambda>r. doc_id r = 12) rated_db = Some (sample_review 12 3 7 3 True)"
    by (simp add: findOne_def rated_db_eq sample_db_def sample_review_def)
  have u: "updateCollegeRatings 7 rated_db = rated_db"
    by (simp add: rated_db_def updateCollegeRatings_twice)
  have c: "college (sample_review 12 3 7 3 True\<lparr>isActive := False\<rparr>) = 7"
    by (simp add: sample_review_def)
  have "moderated_db = save (sample_review 12 3 7 3 True\<lparr>isActive := False\<rparr>) rated_db"
    by (simp add: moderated_db_def moderateReview_def f Let_def c u)
  then show ?thesis
    by (simp add: save_def rated_db_eq sample_db_def sample_review_def)
qed

lemma moderated_active:
  "active_reviews 7 moderated_db = [sample_review 10 1 7 5 True, sample_review 11 2 7 4 True]"
  by (simp add: moderated_db_eq active_reviews_def sample_review_def)

lemma mean_5_4: "mean [5, 4] = 9 / 2"
  by (simp add: mean_def) (simp add: double_eval)

lemma round_to_1_decimal_4_5: "round_to_1_decimal (9 / 2) = 9 / 2"
  by (simp add: round_to_1_decimal_def) (simp add: double_eval)

text \<open>
  C3 fails for the removal by an administrator. The create, update and delete routes save
  the review and then call \<open>updateCollegeRatings\<close>, which leaves the summary current (the
  three lemmas above); \<open>moderateReview\<close> calls it before it saves. Here college 7 has the
  current summary of its three active reviews; after review 12 is removed, two reviews
  are active and the stored summary is still that of the three.
\<close>

theorem moderateReview_remove_stale_summary:
  "summary_current 7 rated_db
   \<and> fst (moderateReview 12 ''remove'' rated_db) = Message 200 ''Review removed successfully''
   \<and> map doc_id (active_reviews 7 (snd (moderateReview 12 ''remove'' rated_db))) = [10, 11]
   \<and> College (snd (moderateReview 12 ''remove'' rated_db)) 7 =
       Some \<lparr>averageRating = 4, totalReviews = 3,
             ratingBreakdown = \<lparr>academics_mean = 4, campusLife_mean = 4, facilities_mean = 4,
                                location_mean = 4, value_mean = 4\<rparr>\<rparr>
   \<and> College (updateCollegeRatings 7 (snd (moderateReview 12 ''remove'' rated_db))) 7 =
       Some \<lparr>averageRating = 9 / 2, totalReviews = 2,
             ratingBreakdown = \<lparr>academics_mean = 9 / 2, campusLife_mean = 9 / 2,
                                facilities_mean = 9 / 2, location_mean = 9 / 2,
                                value_mean = 9 / 2\<rparr>\<rparr>"
proof (intro conjI)
  show "summary_current 7 rated_db"
    by (simp add: rated_db_def summary_current_updateCollegeRatings)
  show "fst (moderateReview 12 ''remove'' rated_db) = Message 200 ''Review removed successfully''"
    by (simp add: moderateReview_def findOne_def rated_db_eq sample_db_def sample_review_def Let_def)
  show "map doc_id (active_reviews 7 (snd (moderateReview 12 ''remove'' rated_db))) = [10, 11]"
    by (simp add: moderated_db_def [symmetric] moderated_active) (simp add: sample_review_def)
  have c: "College moderated_db 7 =
       Some \<lparr>averageRating = 4, totalReviews = 3,
             ratingBreakdown = \<lparr>academics_mean = 4, campusLife_mean = 4, facilities_mean = 4,
                                location_mean = 4, value_mean = 4\<rparr>\<rparr>"
    by (simp add: moderated_db_eq) (simp add: rated_db_eq)
  then show "College (snd (moderateReview 12 ''remove'' rated_db)) 7 =
       Some \<lparr>averageRating = 4, totalReviews = 3,
             ratingBreakdown = \<lparr>academics_mean = 4, campusLife_mean = 4, facilities_mean = 4,
                                location_mean = 4, value_mean = 4\<rparr>\<rparr>"
    by (simp add: moderated_db_def)
  have a: "active_reviews 7 moderated_db \<noteq> []" by (simp add: moderated_active)
  show "College (updateCollegeRatings 7 (snd (moderateReview 12 ''remove'' rated_db))) 7 =
       Some \<lparr>averageRating = 9 / 2, totalReviews = 2,
             ratingBreakdown = \<lparr>academics_mean = 9 / 2, campusLife_mean = 9 / 2,
                                facilities_mean = 9 / 2, location_mean = 9 / 2,
                                value_mean = 9 / 2\<rparr>\<rparr>"
    unfolding moderated_db_def [symmetric]
    by (simp add: College_updateCollegeRatings [OF c a] moderated_active sample_review_def
        mean_5_4 round_to_1_decimal_4_5)
qed

end
